theory Spec2Isabelle
  imports Complex_Main "HOL-Library.Product_Lexorder" "HOL-Library.Word"
begin

section \<open>Bank-statement import service (backend/app/services/import\_service.py)\<close>

text \<open>
  A shallow embedding of the import service: \<open>ParserBancarioMX\<close>,
  \<open>ImportadorEstadoCuenta\<close> and the two dataclasses. Python's library functions that
  the service calls (\<open>str\<close> methods, \<open>re\<close>, \<open>decimal.Decimal\<close>,
  \<open>datetime.strptime\<close>) are modelled first, each as far as the service uses it.
\<close>

subsection \<open>Python strings\<close>

text \<open>
  A Python \<open>str\<close> is a sequence of code points. The model covers the code points
  0 to 255 (Latin-1, which holds the Spanish letters of the patterns): a \<open>char\<close> is one
  code point and \<open>string\<close> is a \<open>str\<close>. \<open>ord\<close> is the code point.
\<close>

definition ord :: "char \<Rightarrow> nat" where
  "ord c = of_char c"

fun poner_bit5 :: "bool \<Rightarrow> char \<Rightarrow> char" where
  "poner_bit5 v (Char b0 b1 b2 b3 b4 b5 b6 b7) = Char b0 b1 b2 b3 b4 v b6 b7"

text \<open>
  \<open>str.lower\<close> on Latin-1: the upper-case letters are A to Z (65 to 90) and 192 to 222
  without the multiplication sign 215; the lower-case letter is 32 higher (bit 5 set).
\<close>

definition es_mayuscula :: "char \<Rightarrow> bool" where
  "es_mayuscula c = (let n = ord c in
     (65 \<le> n \<and> n \<le> 90) \<or> (192 \<le> n \<and> n \<le> 222 \<and> n \<noteq> 215))"

definition lower_char :: "char \<Rightarrow> char" where
  "lower_char c = (if es_mayuscula c then poner_bit5 True c else c)"

definition py_lower :: "string \<Rightarrow> string" where
  "py_lower s = map lower_char s"

text \<open>
  \<open>str.upper\<close> on Latin-1: a to z and 224 to 254 without the division sign 247 lose
  bit 5; the sharp s (223) becomes \<open>SS\<close>. The upper-case forms of 181 (micro sign) and
  255 lie outside Latin-1; they are left unchanged here, and neither they nor their
  upper-case forms belong to a character class of the one pattern that is applied to
  upper-cased text.
\<close>

definition upper_char :: "char \<Rightarrow> string" where
  "upper_char c = (let n = ord c in
     if (97 \<le> n \<and> n \<le> 122) \<or> (224 \<le> n \<and> n \<le> 254 \<and> n \<noteq> 247) then [poner_bit5 False c]
     else if n = 223 then ''SS''
     else [c])"

definition py_upper :: "string \<Rightarrow> string" where
  "py_upper s = concat (map upper_char s)"

text \<open>\<open>str.isspace\<close> of one code point (also the class \<open>\s\<close> of \<open>re\<close>).\<close>

definition es_espacio :: "char \<Rightarrow> bool" where
  "es_espacio c = (let n = ord c in
     (9 \<le> n \<and> n \<le> 13) \<or> (28 \<le> n \<and> n \<le> 32) \<or> n = 133 \<or> n = 160)"

text \<open>The decimal digits (class \<open>\d\<close>): on Latin-1, 0 to 9 only.\<close>

definition es_digito :: "char \<Rightarrow> bool" where
  "es_digito c = (48 \<le> ord c \<and> ord c \<le> 57)"

text \<open>
  The class \<open>\w\<close>: the underscore and every code point whose \<open>str.isalnum\<close> is true.
\<close>

definition es_palabra :: "char \<Rightarrow> bool" where
  "es_palabra c = (let n = ord c in
     (48 \<le> n \<and> n \<le> 57) \<or> (65 \<le> n \<and> n \<le> 90) \<or> n = 95 \<or> (97 \<le> n \<and> n \<le> 122)
     \<or> n = 170 \<or> n = 178 \<or> n = 179 \<or> n = 181 \<or> n = 185 \<or> n = 186
     \<or> (188 \<le> n \<and> n \<le> 190)
     \<or> (192 \<le> n \<and> n \<le> 214) \<or> (216 \<le> n \<and> n \<le> 246) \<or> (248 \<le> n \<and> n \<le> 255))"

definition py_strip :: "string \<Rightarrow> string" where
  "py_strip s = rev (dropWhile es_espacio (rev (dropWhile es_espacio s)))"

text \<open>\<open>s.replace(c, "")\<close> for a one-character \<open>c\<close>.\<close>

definition py_quitar :: "char \<Rightarrow> string \<Rightarrow> string" where
  "py_quitar c s = filter (\<lambda>x. x \<noteq> c) s"

text \<open>\<open>s.count(c)\<close> for a one-character \<open>c\<close>.\<close>

definition py_count :: "char \<Rightarrow> string \<Rightarrow> nat" where
  "py_count c s = length (filter (\<lambda>x. x = c) s)"

fun empieza_con :: "string \<Rightarrow> string \<Rightarrow> bool" where
  "empieza_con [] s = True"
| "empieza_con (p # ps) [] = False"
| "empieza_con (p # ps) (x # xs) = (p = x \<and> empieza_con ps xs)"

text \<open>\<open>sub in s\<close>.\<close>

fun py_in :: "string \<Rightarrow> string \<Rightarrow> bool" where
  "py_in sub [] = (sub = [])"
| "py_in sub (x # xs) = (empieza_con sub (x # xs) \<or> py_in sub xs)"

text \<open>\<open>s.split("\n")\<close>: always at least one piece.\<close>

fun split_lineas :: "string \<Rightarrow> string list" where
  "split_lineas [] = [[]]"
| "split_lineas (x # xs) =
     (if x = CHR 0x0A then [] # split_lineas xs
      else (case split_lineas xs of l # ls \<Rightarrow> (x # l) # ls | [] \<Rightarrow> [[x]]))"

subsection \<open>Regular expressions: the backtracking matcher of \<open>re\<close>\<close>

text \<open>
  The patterns of the service use literals, the dot, character classes, sequence,
  alternation, bounded and unbounded repetition (greedy and lazy) and capturing groups.
  \<open>Rep r lo hi codicioso\<close> is \<open>r{lo,hi}\<close> (\<open>hi = None\<close>: unbounded), lazy when
  \<open>codicioso\<close> is false; \<open>Grupo n r\<close> is the capturing group number \<open>n\<close>.
\<close>

datatype item = Uno char | Rango char char | ClsW | ClsS | ClsD

datatype regex =
    Vacio
  | Car char
  | Punto
  | Clase "item list"
  | Sec regex regex
  | Alt regex regex
  | Rep regex nat "nat option" bool
  | Grupo nat regex

type_synonym grupos = "(nat \<times> string) list"

fun en_item :: "item \<Rightarrow> char \<Rightarrow> bool" where
  "en_item (Uno c) x = (x = c)"
| "en_item (Rango a b) x = (ord a \<le> ord x \<and> ord x \<le> ord b)"
| "en_item ClsW x = es_palabra x"
| "en_item ClsS x = es_espacio x"
| "en_item ClsD x = es_digito x"

fun agotado :: "nat option \<Rightarrow> bool" where
  "agotado None = False"
| "agotado (Some n) = (n = 0)"

fun menos1 :: "nat option \<Rightarrow> nat option" where
  "menos1 None = None"
| "menos1 (Some n) = Some (n - 1)"

text \<open>
  The matcher returns every way to match a pattern at the start of the input, in the
  order in which backtracking tries them: each result is the rest of the input and the
  groups captured so far. The first result is the match that \<open>re\<close> reports. A greedy
  repetition tries one more round before it tries to stop, a lazy one the other way
  round. A round that consumes nothing is not repeated (no repeated pattern of the
  service can match the empty string).
\<close>

fun repetir :: "(string \<Rightarrow> grupos \<Rightarrow> (string \<times> grupos) list) \<Rightarrow> nat \<Rightarrow> nat option \<Rightarrow> bool
    \<Rightarrow> string \<Rightarrow> grupos \<Rightarrow> (string \<times> grupos) list" where
  "repetir m lo hi codicioso s g =
     (let mas = (if agotado hi then []
                 else concat (map (\<lambda>(s', g'). if length s' < length s
                                     then repetir m (lo - 1) (menos1 hi) codicioso s' g' else [])
                              (m s g)));
          alto = (if lo = 0 then [(s, g)] else [])
      in if codicioso then mas @ alto else alto @ mas)"

declare repetir.simps [simp del]

text \<open>
  \<open>ic\<close> is the flag \<open>re.IGNORECASE\<close>: a literal then matches a character with the same
  lower-case form, and a class matches a character whose lower- or upper-case form it
  contains.
\<close>

definition en_clase :: "bool \<Rightarrow> item list \<Rightarrow> char \<Rightarrow> bool" where
  "en_clase ic its x =
     (list_ex (\<lambda>i. en_item i x) its
      \<or> (ic \<and> list_ex (\<lambda>i. en_item i (lower_char x) \<or> list_ex (en_item i) (upper_char x)) its))"

primrec casa :: "bool \<Rightarrow> regex \<Rightarrow> string \<Rightarrow> grupos \<Rightarrow> (string \<times> grupos) list" where
  "casa ic Vacio s g = [(s, g)]"
| "casa ic (Car c) s g = (case s of [] \<Rightarrow> [] | x # xs \<Rightarrow>
      if x = c \<or> (ic \<and> lower_char x = lower_char c) then [(xs, g)] else [])"
| "casa ic Punto s g = (case s of [] \<Rightarrow> [] | x # xs \<Rightarrow>
      if x \<noteq> CHR 0x0A then [(xs, g)] else [])"
| "casa ic (Clase its) s g = (case s of [] \<Rightarrow> [] | x # xs \<Rightarrow>
      if en_clase ic its x then [(xs, g)] else [])"
| "casa ic (Sec a b) s g = concat (map (\<lambda>(s', g'). casa ic b s' g') (casa ic a s g))"
| "casa ic (Alt a b) s g = casa ic a s g @ casa ic b s g"
| "casa ic (Rep r lo hi codicioso) s g = repetir (casa ic r) lo hi codicioso s g"
| "casa ic (Grupo n r) s g =
     map (\<lambda>(s', g'). (s', (n, take (length s - length s') s) # g')) (casa ic r s g)"

declare casa.simps [simp del]

text \<open>The number of capturing groups of a pattern (\<open>re.Pattern.groups\<close>).\<close>

primrec num_grupos :: "regex \<Rightarrow> nat" where
  "num_grupos Vacio = 0"
| "num_grupos (Car c) = 0"
| "num_grupos Punto = 0"
| "num_grupos (Clase its) = 0"
| "num_grupos (Sec a b) = max (num_grupos a) (num_grupos b)"
| "num_grupos (Alt a b) = max (num_grupos a) (num_grupos b)"
| "num_grupos (Rep r lo hi codicioso) = num_grupos r"
| "num_grupos (Grupo n r) = max n (num_grupos r)"

text \<open>
  A match object: \<open>start()\<close>, \<open>end()\<close>, the captured groups (the latest capture of a
  group first) and the number of groups of its pattern.
\<close>

record coincidencia =
  inicio :: nat
  fin :: nat
  capturas :: grupos
  n_grupos :: nat

text \<open>
  \<open>re.search\<close>: the first match at the leftmost position that has one; \<open>i\<close> counts
  the characters already skipped.
\<close>

fun buscar_desde :: "bool \<Rightarrow> regex \<Rightarrow> nat \<Rightarrow> string \<Rightarrow> coincidencia option" where
  "buscar_desde ic r i s =
     (case casa ic r s [] of
        (s', g) # _ \<Rightarrow>
          Some \<lparr>inicio = i, fin = i + (length s - length s'), capturas = g,
                n_grupos = num_grupos r\<rparr>
      | [] \<Rightarrow> (case s of [] \<Rightarrow> None | _ # t \<Rightarrow> buscar_desde ic r (Suc i) t))"

declare buscar_desde.simps [simp del]

definition re_search :: "bool \<Rightarrow> regex \<Rightarrow> string \<Rightarrow> coincidencia option" where
  "re_search ic r s = buscar_desde ic r 0 s"

text \<open>\<open>re.match\<close>: a match at position 0 only.\<close>

definition re_match :: "bool \<Rightarrow> regex \<Rightarrow> string \<Rightarrow> coincidencia option" where
  "re_match ic r s =
     (case casa ic r s [] of
        (s', g) # _ \<Rightarrow>
          Some \<lparr>inicio = 0, fin = length s - length s', capturas = g,
                n_grupos = num_grupos r\<rparr>
      | [] \<Rightarrow> None)"

text \<open>\<open>match.group()\<close>: the matched text, \<open>s[start:end]\<close>.\<close>

definition grupo0 :: "string \<Rightarrow> coincidencia \<Rightarrow> string" where
  "grupo0 s m = take (fin m - inicio m) (drop (inicio m) s)"

text \<open>Builders for sequences and literal strings.\<close>

definition secs :: "regex list \<Rightarrow> regex" where
  "secs rs = foldr Sec rs Vacio"

definition cad :: "string \<Rightarrow> regex" where
  "cad s = secs (map Car s)"

text \<open>\<open>.*\<close>, \<open>\d{a,b}\<close>, \<open>\s+\<close>, \<open>\s*\<close> and \<open>r?\<close>.\<close>

definition todo :: regex where
  "todo = Rep Punto 0 None True"

definition digs :: "nat \<Rightarrow> nat \<Rightarrow> regex" where
  "digs a b = Rep (Clase [ClsD]) a (Some b) True"

definition esp1 :: regex where
  "esp1 = Rep (Clase [ClsS]) 1 None True"

definition esp0 :: regex where
  "esp0 = Rep (Clase [ClsS]) 0 None True"

definition opc :: "regex \<Rightarrow> regex" where
  "opc r = Rep r 0 (Some 1) True"

subsection \<open>Exceptions\<close>

text \<open>
  An exception is its class and its message (\<open>str(e)\<close>). \<open>Otra\<close> stands for the
  classes raised by the readers of the third-party libraries.
\<close>

datatype clase_exc =
  ValueError | ImportError | InvalidOperation | Overflow | AttributeError | IndexError
  | Otra string

datatype excepcion = Exc (clase: clase_exc) (mensaje: string)

subsection \<open>\<open>decimal.Decimal\<close>\<close>

text \<open>
  A \<open>Decimal\<close> is a finite number, an infinity (\<open>Infinito True\<close> is the negative one), a
  quiet or a signalling NaN. A finite number is kept as its value, an exact rational: the
  constructor does not round, and the operations below round their results as the default
  context does (\<open>prec=28\<close>, \<open>ROUND_HALF_EVEN\<close>, \<open>Emin=-999999\<close>, \<open>Emax=999999\<close>,
  traps for \<open>InvalidOperation\<close> and \<open>Overflow\<close>). The sign of a zero, the exponent of a
  number apart from its value, and the sign and the payload of a NaN are not kept; no
  operation of the service reads them.
\<close>

datatype decimal = Fin rat | Infinito bool | NaN | SNaN

definition conversion_syntax :: excepcion where
  "conversion_syntax = Exc InvalidOperation ''[<class 'decimal.ConversionSyntax'>]''"

definition invalid_operation :: excepcion where
  "invalid_operation = Exc InvalidOperation ''[<class 'decimal.InvalidOperation'>]''"

definition overflow :: excepcion where
  "overflow = Exc Overflow ''[<class 'decimal.Overflow'>]''"

definition pot10 :: "int \<Rightarrow> rat" where
  "pot10 k = (if 0 \<le> k then 10 ^ nat k else 1 / 10 ^ nat (- k))"

definition valor_digitos :: "string \<Rightarrow> nat" where
  "valor_digitos s = foldl (\<lambda>a c. 10 * a + (ord c - 48)) 0 s"

definition signo_y_resto :: "string \<Rightarrow> bool \<times> string" where
  "signo_y_resto s =
     (case s of
        [] \<Rightarrow> (False, [])
      | c # r \<Rightarrow> if c = CHR ''-'' then (True, r) else if c = CHR ''+'' then (False, r)
                 else (False, s))"

text \<open>The exponent part \<open>E[-+]?\d+\<close> at the end of a numeric string, or nothing.\<close>

definition exponente :: "string \<Rightarrow> int option" where
  "exponente s =
     (case s of
        [] \<Rightarrow> Some 0
      | c # r \<Rightarrow>
          if c = CHR ''e'' \<or> c = CHR ''E'' then
            (case signo_y_resto r of (neg, d) \<Rightarrow>
               if d \<noteq> [] \<and> list_all es_digito d
               then Some ((if neg then - 1 else 1) * int (valor_digitos d)) else None)
          else None)"

text \<open>
  \<open>Decimal(s)\<close> for a string: white space around the string and every underscore are
  dropped; then comes an optional sign and either a number with at least one digit
  (digits, an optional point and fraction, an optional exponent), or \<open>Inf\<close>,
  \<open>Infinity\<close>, \<open>NaN\<close> or \<open>sNaN\<close> with optional digits, in any case. Anything else
  raises \<open>InvalidOperation\<close>. The number is exact, whatever the count of its digits.
  (The C implementation also refuses a number whose exponent or count of digits is
  beyond \<open>10^18\<close>; this limit is not part of the model.)
\<close>

definition py_Decimal :: "string \<Rightarrow> excepcion + decimal" where
  "py_Decimal s =
     (case signo_y_resto (py_quitar (CHR ''_'') (py_strip s)) of (neg, u) \<Rightarrow>
        let l = py_lower u in
        if l = ''inf'' \<or> l = ''infinity'' then Inr (Infinito neg)
        else if empieza_con ''nan'' l \<and> list_all es_digito (drop 3 l) then Inr NaN
        else if empieza_con ''snan'' l \<and> list_all es_digito (drop 4 l) then Inr SNaN
        else
          let ent = takeWhile es_digito u;
              r1 = dropWhile es_digito u;
              frac = (case r1 of [] \<Rightarrow> []
                      | c # r \<Rightarrow> if c = CHR ''.'' then takeWhile es_digito r else []);
              r2 = (case r1 of [] \<Rightarrow> []
                    | c # r \<Rightarrow> if c = CHR ''.'' then dropWhile es_digito r else r1)
          in if ent = [] \<and> frac = [] then Inl conversion_syntax
             else (case exponente r2 of
                     None \<Rightarrow> Inl conversion_syntax
                   | Some e \<Rightarrow>
                       Inr (Fin ((if neg then - 1 else 1) * of_nat (valor_digitos (ent @ frac))
                                 * pot10 (e - int (length frac))))))"

text \<open>
  The context. \<open>Etiny\<close> is the least exponent of a subnormal result and \<open>Etop\<close> the
  greatest exponent of a coefficient of \<open>prec\<close> digits.
\<close>

definition prec :: int where
  "prec = 28"

definition Emax :: int where
  "Emax = 999999"

definition Emin :: int where
  "Emin = - 999999"

definition Etiny :: int where
  "Etiny = Emin - prec + 1"

definition Etop :: int where
  "Etop = Emax - prec + 1"

text \<open>
  \<open>Decimal.adjusted\<close>, the exponent of the first significant digit of a number that is
  not zero: \<open>ajustado r = a\<close> when \<open>10^a \<le> |r| < 10^(a+1)\<close>. \<open>exp_alto\<close> counts the
  divisions by 10 that bring a number under 10, \<open>exp_bajo\<close> the multiplications by 10
  that bring a positive number up to 1.
\<close>

function exp_alto :: "rat \<Rightarrow> nat" where
  "exp_alto r = (if r < 10 then 0 else Suc (exp_alto (r / 10)))"
  by pat_completeness auto
termination
proof (relation "measure (\<lambda>r. nat \<lfloor>r\<rfloor>)")
  fix r :: rat
  assume "\<not> r < 10"
  then have p: "1 \<le> \<lfloor>r\<rfloor>" by (simp add: le_floor_iff)
  have "r < of_int \<lfloor>r\<rfloor> + 1" by linarith
  moreover from p have "(1 :: rat) \<le> of_int \<lfloor>r\<rfloor>" by linarith
  ultimately have "r / 10 < of_int \<lfloor>r\<rfloor>" by linarith
  then have "\<lfloor>r / 10\<rfloor> < \<lfloor>r\<rfloor>" by (simp only: floor_less_iff)
  with p have "nat \<lfloor>r / 10\<rfloor> < nat \<lfloor>r\<rfloor>" by linarith
  then show "(r / 10, r) \<in> measure (\<lambda>r. nat \<lfloor>r\<rfloor>)" by (simp only: in_measure)
qed simp

declare exp_alto.simps [simp del]

function exp_bajo :: "rat \<Rightarrow> nat" where
  "exp_bajo r = (if r \<le> 0 \<or> 1 \<le> r then 0 else Suc (exp_bajo (r * 10)))"
  by pat_completeness auto
termination
proof (relation "measure (\<lambda>r. nat \<lfloor>1 / r\<rfloor>)")
  fix r :: rat
  assume "\<not> (r \<le> 0 \<or> 1 \<le> r)"
  define x where "x = 1 / r"
  from \<open>\<not> (r \<le> 0 \<or> 1 \<le> r)\<close> have p: "1 \<le> \<lfloor>x\<rfloor>"
    by (simp add: x_def le_floor_iff)
  have "x < of_int \<lfloor>x\<rfloor> + 1" by linarith
  moreover from p have "(1 :: rat) \<le> of_int \<lfloor>x\<rfloor>" by linarith
  ultimately have "x / 10 < of_int \<lfloor>x\<rfloor>" by linarith
  then have "\<lfloor>x / 10\<rfloor> < \<lfloor>x\<rfloor>" by (simp only: floor_less_iff)
  with p have "nat \<lfloor>x / 10\<rfloor> < nat \<lfloor>x\<rfloor>" by linarith
  moreover have "1 / (r * 10) = x / 10" by (simp add: x_def)
  ultimately show "(r * 10, r) \<in> measure (\<lambda>r. nat \<lfloor>1 / r\<rfloor>)"
    by (simp only: in_measure x_def)
qed simp

declare exp_bajo.simps [simp del]

definition ajustado :: "rat \<Rightarrow> int" where
  "ajustado r = (if 1 \<le> \<bar>r\<bar> then int (exp_alto \<bar>r\<bar>) else - int (exp_bajo \<bar>r\<bar>))"

text \<open>\<open>ROUND_HALF_EVEN\<close> to an integer.\<close>

definition redondear_par :: "rat \<Rightarrow> int" where
  "redondear_par x =
     (let f = \<lfloor>x\<rfloor>; d = x - of_int f
      in if d < 1 / 2 then f else if 1 / 2 < d then f + 1 else if even f then f else f + 1)"

text \<open>
  \<open>Decimal._fix\<close>, the rounding of an exact result under the context. A result whose
  adjusted exponent is above \<open>Emax\<close> raises \<open>Overflow\<close>; any other is rounded at the
  exponent \<open>exp_min\<close> that leaves \<open>prec\<close> digits, or at \<open>Etiny\<close> when that is greater (a
  subnormal result, which may become zero); the rounding may carry into one more
  digit, and then the test for \<open>Overflow\<close> is made again. A number that needs no
  rounding is returned as it is.
\<close>

definition dec_fix :: "rat \<Rightarrow> excepcion + decimal" where
  "dec_fix r =
     (if r = 0 then Inr (Fin 0)
      else
        let exp_min = ajustado r + 1 - prec in
        if Etop < exp_min then Inl overflow
        else
          let q = max exp_min Etiny;
              v = of_int (redondear_par (r / pot10 q)) * pot10 q
          in if v \<noteq> 0 \<and> Emax < ajustado v then Inl overflow else Inr (Fin v))"

text \<open>
  Arithmetic under the default context: a signalling NaN raises, a quiet NaN is passed
  on, the sum of opposite infinities raises, and the exact sum of two numbers is
  rounded. \<open>dec_neg\<close> is \<open>copy_negate\<close>, which does not round; \<open>a - b\<close> is
  \<open>a + b.copy_negate()\<close>.
\<close>

fun dec_neg :: "decimal \<Rightarrow> decimal" where
  "dec_neg (Fin q) = Fin (- q)"
| "dec_neg (Infinito n) = Infinito (\<not> n)"
| "dec_neg NaN = NaN"
| "dec_neg SNaN = SNaN"

fun dec_add :: "decimal \<Rightarrow> decimal \<Rightarrow> excepcion + decimal" where
  "dec_add SNaN b = Inl invalid_operation"
| "dec_add a SNaN = Inl invalid_operation"
| "dec_add NaN b = Inr NaN"
| "dec_add a NaN = Inr NaN"
| "dec_add (Infinito n) (Infinito k) = (if n = k then Inr (Infinito n) else Inl invalid_operation)"
| "dec_add (Infinito n) (Fin q) = Inr (Infinito n)"
| "dec_add (Fin p) (Infinito k) = Inr (Infinito k)"
| "dec_add (Fin p) (Fin q) = dec_fix (p + q)"

definition dec_sub :: "decimal \<Rightarrow> decimal \<Rightarrow> excepcion + decimal" where
  "dec_sub a b = dec_add a (dec_neg b)"

text \<open>\<open>abs(a)\<close>, which rounds as well.\<close>

fun dec_abs :: "decimal \<Rightarrow> excepcion + decimal" where
  "dec_abs (Fin q) = dec_fix \<bar>q\<bar>"
| "dec_abs (Infinito n) = Inr (Infinito False)"
| "dec_abs NaN = Inr NaN"
| "dec_abs SNaN = Inl invalid_operation"

text \<open>\<open>a < b\<close>: exact; an ordering comparison with any NaN raises.\<close>

fun dec_lt :: "decimal \<Rightarrow> decimal \<Rightarrow> excepcion + bool" where
  "dec_lt (Fin p) (Fin q) = Inr (p < q)"
| "dec_lt (Fin p) (Infinito k) = Inr (\<not> k)"
| "dec_lt (Infinito n) (Fin q) = Inr n"
| "dec_lt (Infinito n) (Infinito k) = Inr (n \<and> \<not> k)"
| "dec_lt a b = Inl invalid_operation"

text \<open>Truth of a \<open>Decimal\<close>: false for zero only.\<close>

fun dec_bool :: "decimal \<Rightarrow> bool" where
  "dec_bool (Fin q) = (q \<noteq> 0)"
| "dec_bool d = True"

text \<open>
  \<open>sum(...)\<close> of decimals: a left fold of \<open>+\<close> that starts from the integer 0, so that
  each partial sum is rounded, the first one included.
\<close>

fun dec_sum_desde :: "decimal \<Rightarrow> decimal list \<Rightarrow> excepcion + decimal" where
  "dec_sum_desde acc [] = Inr acc"
| "dec_sum_desde acc (d # ds) =
     (case dec_add acc d of Inl e \<Rightarrow> Inl e | Inr acc' \<Rightarrow> dec_sum_desde acc' ds)"

definition dec_sum :: "decimal list \<Rightarrow> excepcion + decimal" where
  "dec_sum ds = dec_sum_desde (Fin 0) ds"

subsection \<open>\<open>datetime.date\<close> and \<open>datetime.strptime\<close>\<close>

text \<open>A date is (year, month, day); dates compare in that order.\<close>

type_synonym date = "nat \<times> nat \<times> nat"

definition es_bisiesto :: "nat \<Rightarrow> bool" where
  "es_bisiesto y = (y mod 4 = 0 \<and> (y mod 100 \<noteq> 0 \<or> y mod 400 = 0))"

definition dias_del_mes :: "nat \<Rightarrow> nat \<Rightarrow> nat" where
  "dias_del_mes y m =
     (if m = 2 then (if es_bisiesto y then 29 else 28)
      else if m = 4 \<or> m = 6 \<or> m = 9 \<or> m = 11 then 30 else 31)"

definition fecha_valida :: "date \<Rightarrow> bool" where
  "fecha_valida f = (case f of (y, m, d) \<Rightarrow>
     1 \<le> y \<and> y \<le> 9999 \<and> 1 \<le> m \<and> m \<le> 12 \<and> 1 \<le> d \<and> d \<le> dias_del_mes y m)"

text \<open>
  A format is a list of directives. \<open>strptime\<close> turns it into a pattern with one named
  group for each directive (here the groups 1 to 4 for \<open>%d\<close>, \<open>%m\<close>, \<open>%Y\<close>, \<open>%y\<close>),
  matches it at the start of the text with \<open>re.IGNORECASE\<close>, refuses text that the
  match leaves unconverted, and builds the date, which must exist. Every failure is
  a \<open>ValueError\<close>. Each format of the service has the three of day, month and year.
\<close>

datatype directiva = Dir_d | Dir_m | Dir_Y | Dir_y | Literal char

fun regex_directiva :: "directiva \<Rightarrow> regex" where
  "regex_directiva Dir_d =
     Grupo 1 (Alt (Sec (Car (CHR ''3'')) (Clase [Rango (CHR ''0'') (CHR ''1'')]))
             (Alt (Sec (Clase [Rango (CHR ''1'') (CHR ''2'')]) (Clase [ClsD]))
             (Alt (Sec (Car (CHR ''0'')) (Clase [Rango (CHR ''1'') (CHR ''9'')]))
             (Alt (Clase [Rango (CHR ''1'') (CHR ''9'')])
                  (Sec (Car (CHR '' '')) (Clase [Rango (CHR ''1'') (CHR ''9'')]))))))"
| "regex_directiva Dir_m =
     Grupo 2 (Alt (Sec (Car (CHR ''1'')) (Clase [Rango (CHR ''0'') (CHR ''2'')]))
             (Alt (Sec (Car (CHR ''0'')) (Clase [Rango (CHR ''1'') (CHR ''9'')]))
                  (Clase [Rango (CHR ''1'') (CHR ''9'')])))"
| "regex_directiva Dir_Y = Grupo 3 (digs 4 4)"
| "regex_directiva Dir_y = Grupo 4 (digs 2 2)"
| "regex_directiva (Literal c) = Car c"

definition formato_regex :: "directiva list \<Rightarrow> regex" where
  "formato_regex fmt = secs (map regex_directiva fmt)"

definition valor_int :: "string \<Rightarrow> nat" where
  "valor_int s = valor_digitos (filter es_digito s)"

definition error_fecha :: excepcion where
  "error_fecha = Exc ValueError ''time data does not match format''"

definition strptime :: "string \<Rightarrow> directiva list \<Rightarrow> excepcion + date" where
  "strptime s fmt =
     (case re_match True (formato_regex fmt) s of
        None \<Rightarrow> Inl error_fecha
      | Some m \<Rightarrow>
          if fin m \<noteq> length s then Inl error_fecha
          else
            let g = map_of (capturas m);
                y = (case g 3 of Some t \<Rightarrow> valor_int t
                     | None \<Rightarrow> (case g 4 of
                          Some t \<Rightarrow> (if valor_int t \<le> 68 then 2000 + valor_int t
                                      else 1900 + valor_int t)
                        | None \<Rightarrow> 1900));
                mo = (case g 2 of Some t \<Rightarrow> valor_int t | None \<Rightarrow> 1);
                d = (case g 1 of Some t \<Rightarrow> valor_int t | None \<Rightarrow> 1)
            in if fecha_valida (y, mo, d) then Inr (y, mo, d) else Inl error_fecha)"

subsection \<open>Python values\<close>

text \<open>
  The values that reach the parsers of the service through a \<open>csv\<close> row or a worksheet
  cell: \<open>None\<close>, a \<open>bool\<close>, an \<open>int\<close>, a \<open>str\<close>, a \<open>date\<close>, or another object, which
  the parsers only test for truth and turn into text (\<open>PObj truth text\<close>). A \<open>float\<close>
  is not modelled.
\<close>

datatype pyval = PNone | PBool bool | PInt int | PStr string | PFecha date | PObj bool string

fun py_truthy :: "pyval \<Rightarrow> bool" where
  "py_truthy PNone = False"
| "py_truthy (PBool b) = b"
| "py_truthy (PInt n) = (n \<noteq> 0)"
| "py_truthy (PStr s) = (s \<noteq> [])"
| "py_truthy (PFecha f) = True"
| "py_truthy (PObj t s) = t"

definition digito :: "nat \<Rightarrow> char" where
  "digito d = ''0123456789'' ! d"

function str_nat :: "nat \<Rightarrow> string" where
  "str_nat n = (if n < 10 then [digito n] else str_nat (n div 10) @ [digito (n mod 10)])"
  by pat_completeness auto
termination
  by (relation "measure id") auto

declare str_nat.simps [simp del]

definition str_int :: "int \<Rightarrow> string" where
  "str_int n = (if n < 0 then CHR ''-'' # str_nat (nat (- n)) else str_nat (nat n))"

definition relleno :: "nat \<Rightarrow> string \<Rightarrow> string" where
  "relleno k s = replicate (k - length s) (CHR ''0'') @ s"

text \<open>\<open>date.isoformat\<close>, which is \<open>str\<close> of a date.\<close>

definition isoformat :: "date \<Rightarrow> string" where
  "isoformat f = (case f of (y, m, d) \<Rightarrow>
     relleno 4 (str_nat y) @ ''-'' @ relleno 2 (str_nat m) @ ''-'' @ relleno 2 (str_nat d))"

fun py_str :: "pyval \<Rightarrow> string" where
  "py_str PNone = ''None''"
| "py_str (PBool b) = (if b then ''True'' else ''False'')"
| "py_str (PInt n) = str_int n"
| "py_str (PStr s) = s"
| "py_str (PFecha f) = isoformat f"
| "py_str (PObj t s) = s"

text \<open>\<open>isinstance(v, (int, float))\<close>: a \<open>bool\<close> is an \<open>int\<close>.\<close>

fun es_int_o_float :: "pyval \<Rightarrow> bool" where
  "es_int_o_float (PBool b) = True"
| "es_int_o_float (PInt n) = True"
| "es_int_o_float v = False"

text \<open>Sequencing of computations that may raise.\<close>

definition ligar :: "'e + 'a \<Rightarrow> ('a \<Rightarrow> 'e + 'b) \<Rightarrow> 'e + 'b" where
  "ligar x f = (case x of Inl e \<Rightarrow> Inl e | Inr v \<Rightarrow> f v)"

text \<open>
  \<open>match.group(n)\<close>: \<open>IndexError\<close> when the pattern has no group \<open>n\<close>, \<open>None\<close> when
  the group took no part in the match.
\<close>

definition grupo :: "coincidencia \<Rightarrow> nat \<Rightarrow> excepcion + string option" where
  "grupo m n = (if n_grupos m < n then Inl (Exc IndexError ''no such group'')
                else Inr (map_of (capturas m) n))"

text \<open>A method called on \<open>None\<close>.\<close>

definition error_none :: "string \<Rightarrow> excepcion" where
  "error_none metodo =
     Exc AttributeError (CHR 0x27 # ''NoneType' object has no attribute ''
                         @ [CHR 0x27] @ metodo @ [CHR 0x27])"

subsection \<open>The dataclasses\<close>

record transaccion_bancaria =
  fecha :: date
  descripcion :: string
  referencia :: string
  cargo :: decimal
  abono :: decimal
  saldo :: "decimal option"
  concepto_limpio :: string
  categoria_sugerida :: string
  es_transferencia_interna :: bool
  beneficiario_detectado :: string
  rfc_detectado :: "string option"

record estado_cuenta_importado =
  banco :: string
  cuenta :: string
  moneda :: string
  fecha_inicio :: date
  fecha_fin :: date
  saldo_inicial :: decimal
  saldo_final :: decimal
  transacciones :: "transaccion_bancaria list"
  total_cargos :: decimal
  total_abonos :: decimal

text \<open>
  The property \<open>balance_verificado\<close>:
  \<open>calculado = saldo_inicial + total_abonos - total_cargos\<close>, then
  \<open>abs(calculado - saldo_final) < Decimal("0.01")\<close>.
\<close>

definition balance_verificado :: "estado_cuenta_importado \<Rightarrow> excepcion + bool" where
  "balance_verificado e =
     ligar (dec_add (saldo_inicial e) (total_abonos e)) (\<lambda>suma.
     ligar (dec_sub suma (total_cargos e)) (\<lambda>calculado.
     ligar (dec_sub calculado (saldo_final e)) (\<lambda>diferencia.
     ligar (dec_abs diferencia) (\<lambda>absoluto.
     dec_lt absoluto (Fin (1 / 100))))))"

subsection \<open>\<open>ParserBancarioMX\<close>\<close>

definition BANCOS :: "(string \<times> string list) list" where
  "BANCOS =
    [(''BBVA'', [''bbva'', ''bancomer'', ''014'']),
     (''SANTANDER'', [''santander'', ''0140'', ''banco santander'']),
     (''BANORTE'', [''banorte'', ''banorte-ixe'', ''058'']),
     (''HSBC'', [''hsbc'', ''021'']),
     (''BANAMEX'', [''banamex'', ''citibanamex'', ''002'']),
     (''SCOTIABANK'', [''scotiabank'', ''044'', ''scotia'']),
     (''BANCOAZTECA'', [''banco azteca'', ''062'']),
     (''INBURSA'', [''inbursa'', ''036'']),
     (''INTERACCIONES'', [''interacciones'', ''060'']),
     (''BANREGIO'', [''banregio'', ''059'']),
     (''AFIRME'', [''afirme'', ''061'']),
     (''MONEX'', [''monex'', ''056'']),
     (''MULTIVA'', [''multiva'', ''049''])]"

text \<open>
  The patterns of \<open>CATEGORIAS\<close>. \<open>con_todo a b\<close> is \<open>a.*b\<close>; \<open>con_acento a c c' b\<close>
  is \<open>a[cc']b\<close>, where \<open>c\<close> is a plain vowel and \<open>c'\<close> the vowel with its acute accent
  (\<open>0xF3\<close> is the o with accent, \<open>0xE9\<close> the e with accent), as in \<open>n[o0xF3]mina\<close>.
\<close>

definition con_todo :: "string \<Rightarrow> string \<Rightarrow> regex" where
  "con_todo a b = secs [cad a, todo, cad b]"

definition con_acento :: "string \<Rightarrow> char \<Rightarrow> char \<Rightarrow> string \<Rightarrow> regex" where
  "con_acento a c c' b = secs [cad a, Clase [Uno c, Uno c'], cad b]"

definition CATEGORIAS :: "(string \<times> regex list) list" where
  "CATEGORIAS =
    [(''transferencias_internas'',
        [con_todo ''transferencia'' ''misma empresa'',
         con_todo ''traspaso'' ''cuenta'',
         con_todo ''spei'' ''propia'',
         cad ''transferencia entre cuentas'']),
     (''proveedores'',
        [con_todo ''pago'' ''proveedor'',
         cad ''factura'',
         secs [cad ''pago a '', Rep (Clase [ClsW, ClsS]) 1 None True],
         con_todo ''transferencia'' ''proveedor'']),
     (''nominas'',
        [con_acento ''n'' (CHR ''o'') (CHR 0xF3) ''mina'',
         con_todo ''pago'' ''sueldo'',
         cad ''salario'',
         con_todo ''transferencia'' ''empleado'',
         con_todo ''spei'' ''nomin'']),
     (''impuestos'',
        [cad ''sat'',
         cad ''impuesto'',
         cad ''iva'',
         cad ''isr'',
         cad ''pago provisional'',
         con_acento ''declaraci'' (CHR ''o'') (CHR 0xF3) ''n'']),
     (''servicios'',
        [cad ''luz'',
         cad ''agua'',
         con_acento ''tel'' (CHR ''e'') (CHR 0xE9) ''fono'',
         cad ''internet'',
         con_acento ''comisi'' (CHR ''o'') (CHR 0xF3) ''n bancaria'',
         cad ''cuota'',
         cad ''mantenimiento'']),
     (''clientes'',
        [con_todo ''pago'' ''cliente'',
         con_todo ''deposito'' ''cliente'',
         con_todo ''transferencia'' ''cliente'',
         cad ''venta'',
         cad ''cobro'']),
     (''financiamiento'',
        [secs [cad ''pago'', todo, cad ''cr'', Clase [Uno (CHR ''e''), Uno (CHR 0xE9)],
               cad ''dito''],
         con_acento ''amortizaci'' (CHR ''o'') (CHR 0xF3) ''n'',
         cad ''intereses'',
         secs [cad ''comisi'', Clase [Uno (CHR ''o''), Uno (CHR 0xF3)], cad ''n'', todo,
               cad ''apertura'']])]"

text \<open>\<open>detectar_banco\<close>: the two nested loops over \<open>BANCOS\<close>.\<close>

fun algun_alias :: "string list \<Rightarrow> string \<Rightarrow> bool" where
  "algun_alias [] c = False"
| "algun_alias (patron # patrones) c = (py_in patron c \<or> algun_alias patrones c)"

fun detectar_en :: "(string \<times> string list) list \<Rightarrow> string \<Rightarrow> string" where
  "detectar_en [] c = ''DESCONOCIDO''"
| "detectar_en ((b, patrones) # resto) c =
     (if algun_alias patrones c then b else detectar_en resto c)"

definition detectar_banco :: "string \<Rightarrow> string" where
  "detectar_banco contenido = detectar_en BANCOS (py_lower contenido)"

text \<open>\<open>categorizar_transaccion\<close>: the two nested loops over \<open>CATEGORIAS\<close>.\<close>

fun algun_patron :: "regex list \<Rightarrow> string \<Rightarrow> bool" where
  "algun_patron [] d = False"
| "algun_patron (patron # patrones) d =
     (if re_search False patron d \<noteq> None then True else algun_patron patrones d)"

fun categorizar_en :: "(string \<times> regex list) list \<Rightarrow> string \<Rightarrow> string" where
  "categorizar_en [] d = ''otros''"
| "categorizar_en ((categoria, patrones) # resto) d =
     (if algun_patron patrones d then categoria else categorizar_en resto d)"

definition categorizar_transaccion :: "string \<Rightarrow> string" where
  "categorizar_transaccion d = categorizar_en CATEGORIAS (py_lower d)"

text \<open>
  \<open>extraer_rfc\<close>: the pattern \<open>[A-Z&0xD1]{3,4}[0-9]{6}[A-Z0-9]{2,3}\<close>, where \<open>0xD1\<close>
  stands for the capital N with tilde, searched in the upper-cased text.
\<close>

definition patron_rfc :: regex where
  "patron_rfc =
     secs [Rep (Clase [Rango (CHR ''A'') (CHR ''Z''), Uno (CHR ''&''), Uno (CHR 0xD1)])
             3 (Some 4) True,
           Rep (Clase [Rango (CHR ''0'') (CHR ''9'')]) 6 (Some 6) True,
           Rep (Clase [Rango (CHR ''A'') (CHR ''Z''), Rango (CHR ''0'') (CHR ''9'')])
             2 (Some 3) True]"

definition extraer_rfc :: "string \<Rightarrow> string option" where
  "extraer_rfc texto =
     (case re_search False patron_rfc (py_upper texto) of
        Some m \<Rightarrow>
          (let rfc = grupo0 (py_upper texto) m
           in if length rfc = 12 \<or> length rfc = 13 then Some rfc else None)
      | None \<Rightarrow> None)"

subsection \<open>\<open>ImportadorEstadoCuenta\<close>: the field parsers\<close>

text \<open>
  The state of an importer object, as \<open>__init__\<close> creates it: the list \<open>errores\<close> and
  the counter \<open>transacciones_parsed\<close> (the parser object has no state).
\<close>

record importador_estado_cuenta =
  errores :: "string list"
  transacciones_parsed :: nat

definition importador_nuevo :: importador_estado_cuenta where
  "importador_nuevo = \<lparr>errores = [], transacciones_parsed = 0\<rparr>"

text \<open>
  \<open>_parsear_monto\<close>. An \<open>int\<close> (or \<open>bool\<close>) goes through \<open>Decimal(str(valor))\<close>
  outside the \<open>try\<close>; a false value is 0; any other value is turned into text, cleaned
  and converted inside the \<open>try\<close>, which catches \<open>InvalidOperation\<close> only.
\<close>

definition parsear_monto :: "pyval \<Rightarrow> excepcion + decimal" where
  "parsear_monto valor =
     (if es_int_o_float valor then py_Decimal (py_str valor)
      else if \<not> py_truthy valor then Inr (Fin 0)
      else
        let monto_str = py_quitar (CHR '','') (py_quitar (CHR ''$'') (py_strip (py_str valor)));
            monto_str' =
              (if CHR ''('' \<in> set monto_str \<and> CHR '')'' \<in> set monto_str
               then CHR ''-'' # py_quitar (CHR '')'') (py_quitar (CHR ''('') monto_str)
               else monto_str)
        in (case py_Decimal monto_str' of
              Inr d \<Rightarrow> Inr d
            | Inl e \<Rightarrow> if clase e = InvalidOperation then Inr (Fin 0) else Inl e))"

text \<open>
  The formats of \<open>_parsear_fecha\<close>, in the order of the source:
  \<open>%d/%m/%Y\<close>, \<open>%d-%m-%Y\<close>, \<open>%Y/%m/%d\<close>, \<open>%Y-%m-%d\<close>, \<open>%d/%m/%y\<close>, \<open>%m/%d/%Y\<close>,
  \<open>%Y%m%d\<close>.
\<close>

definition formatos :: "directiva list list" where
  "formatos =
    [[Dir_d, Literal (CHR ''/''), Dir_m, Literal (CHR ''/''), Dir_Y],
     [Dir_d, Literal (CHR ''-''), Dir_m, Literal (CHR ''-''), Dir_Y],
     [Dir_Y, Literal (CHR ''/''), Dir_m, Literal (CHR ''/''), Dir_d],
     [Dir_Y, Literal (CHR ''-''), Dir_m, Literal (CHR ''-''), Dir_d],
     [Dir_d, Literal (CHR ''/''), Dir_m, Literal (CHR ''/''), Dir_y],
     [Dir_m, Literal (CHR ''/''), Dir_d, Literal (CHR ''/''), Dir_Y],
     [Dir_Y, Dir_m, Dir_d]]"

text \<open>
  The loop \<open>for fmt in formatos: try: return strptime(...) except ValueError: continue\<close>;
  \<open>None\<close> when the list is used up.
\<close>

fun primer_formato :: "directiva list list \<Rightarrow> string \<Rightarrow> excepcion + date option" where
  "primer_formato [] s = Inr None"
| "primer_formato (fmt # fmts) s =
     (case strptime s fmt of
        Inr f \<Rightarrow> Inr (Some f)
      | Inl e \<Rightarrow> if clase e = ValueError then primer_formato fmts s else Inl e)"

text \<open>\<open>_parsear_fecha\<close>.\<close>

definition parsear_fecha :: "pyval \<Rightarrow> excepcion + date option" where
  "parsear_fecha valor =
     (case valor of
        PFecha f \<Rightarrow> Inr (Some f)
      | _ \<Rightarrow>
          if \<not> py_truthy valor \<or> py_strip (py_str valor) = [] then Inr None
          else primer_formato formatos (py_strip (py_str valor)))"

subsection \<open>Balances and account number from the text\<close>

text \<open>The amount \<open>[\d,]+\.\d{2}\<close> and the separator \<open>[:\s]+\<close>.\<close>

definition rx_monto :: regex where
  "rx_monto = secs [Rep (Clase [ClsD, Uno (CHR '','')]) 1 None True, Car (CHR ''.''), digs 2 2]"

definition rx_sep :: regex where
  "rx_sep = Rep (Clase [Uno (CHR '':''), ClsS]) 1 None True"

text \<open>
  The patterns of \<open>_extraer_saldo_inicial\<close>:
  \<open>saldo\s*(anterior|inicial|previous)[:\s]+\$?([\d,]+\.\d{2})\<close> and
  \<open>saldo\s*al\s*inicio[:\s]+\$?([\d,]+\.\d{2})\<close>; the second has one group.
\<close>

definition patrones_saldo_inicial :: "regex list" where
  "patrones_saldo_inicial =
    [secs [cad ''saldo'', esp0,
           Grupo 1 (Alt (cad ''anterior'') (Alt (cad ''inicial'') (cad ''previous''))),
           rx_sep, opc (Car (CHR ''$'')), Grupo 2 rx_monto],
     secs [cad ''saldo'', esp0, cad ''al'', esp0, cad ''inicio'',
           rx_sep, opc (Car (CHR ''$'')), Grupo 1 rx_monto]]"

text \<open>
  The patterns of \<open>_extraer_saldo_final\<close>:
  \<open>saldo\s*(final|actual|current)[:\s]+\$?([\d,]+\.\d{2})\<close> and
  \<open>saldo\s*al\s*corte[:\s]+\$?([\d,]+\.\d{2})\<close>.
\<close>

definition patrones_saldo_final :: "regex list" where
  "patrones_saldo_final =
    [secs [cad ''saldo'', esp0,
           Grupo 1 (Alt (cad ''final'') (Alt (cad ''actual'') (cad ''current''))),
           rx_sep, opc (Car (CHR ''$'')), Grupo 2 rx_monto],
     secs [cad ''saldo'', esp0, cad ''al'', esp0, cad ''corte'',
           rx_sep, opc (Car (CHR ''$'')), Grupo 1 rx_monto]]"

text \<open>
  \<open>Decimal(match.group(n).replace(",", ""))\<close>: raises when the pattern has no group
  \<open>n\<close>, when the group is \<open>None\<close>, or when the text is no number.
\<close>

definition decimal_de_grupo :: "coincidencia \<Rightarrow> nat \<Rightarrow> excepcion + decimal" where
  "decimal_de_grupo m n =
     ligar (grupo m n) (\<lambda>g.
       case g of None \<Rightarrow> Inl (error_none ''replace'')
       | Some t \<Rightarrow> py_Decimal (py_quitar (CHR '','') t))"

text \<open>
  The loop shared by \<open>_extraer_saldo_inicial\<close> and \<open>_extraer_saldo_final\<close>: for each
  pattern, search with \<open>re.IGNORECASE\<close>; on a match return the decimal of group 2; a
  bare \<open>except\<close> turns every exception into \<open>continue\<close>.
\<close>

fun extraer_saldo :: "regex list \<Rightarrow> string \<Rightarrow> decimal option" where
  "extraer_saldo [] texto = None"
| "extraer_saldo (patron # patrones) texto =
     (case re_search True patron texto of
        None \<Rightarrow> extraer_saldo patrones texto
      | Some m \<Rightarrow>
          (case decimal_de_grupo m 2 of
             Inr d \<Rightarrow> Some d
           | Inl e \<Rightarrow> extraer_saldo patrones texto))"

definition extraer_saldo_inicial :: "string \<Rightarrow> decimal option" where
  "extraer_saldo_inicial texto = extraer_saldo patrones_saldo_inicial texto"

definition extraer_saldo_final :: "string \<Rightarrow> decimal option" where
  "extraer_saldo_final texto = extraer_saldo patrones_saldo_final texto"

text \<open>
  The patterns of \<open>_extraer_cuenta\<close>: \<open>cuenta[:\s]+(\d{10,20})\<close>,
  \<open>no\.?\s*cuenta[:\s]+(\d{10,20})\<close>, \<open>account[:\s]+(\d{10,20})\<close> and
  \<open>\*{4,}(\d{4})\<close>. Group 1 takes part in every match of each of them.
\<close>

definition patrones_cuenta :: "regex list" where
  "patrones_cuenta =
    [secs [cad ''cuenta'', rx_sep, Grupo 1 (digs 10 20)],
     secs [cad ''no'', opc (Car (CHR ''.'')), esp0, cad ''cuenta'', rx_sep, Grupo 1 (digs 10 20)],
     secs [cad ''account'', rx_sep, Grupo 1 (digs 10 20)],
     secs [Rep (Car (CHR ''*'')) 4 None True, Grupo 1 (digs 4 4)]]"

fun extraer_cuenta_en :: "regex list \<Rightarrow> string \<Rightarrow> string" where
  "extraer_cuenta_en [] texto = []"
| "extraer_cuenta_en (patron # patrones) texto =
     (case re_search True patron texto of
        None \<Rightarrow> extraer_cuenta_en patrones texto
      | Some m \<Rightarrow> (case map_of (capturas m) 1 of Some t \<Rightarrow> t | None \<Rightarrow> []))"

definition extraer_cuenta :: "string \<Rightarrow> string" where
  "extraer_cuenta texto = extraer_cuenta_en patrones_cuenta texto"

subsection \<open>\<open>_construir_estado_cuenta\<close>\<close>

text \<open>
  \<open>x or y\<close> for an optional decimal \<open>x\<close>: \<open>y\<close> when \<open>x\<close> is \<open>None\<close> or a decimal that
  is false, that is, zero. \<open>y\<close> is evaluated only then.
\<close>

definition saldo_or :: "decimal option \<Rightarrow> (excepcion + decimal) \<Rightarrow> excepcion + decimal" where
  "saldo_or x y = (case x of None \<Rightarrow> y | Some d \<Rightarrow> if dec_bool d then Inr d else y)"

text \<open>
  The environment of a call: the flags set when the module is loaded, \<open>date.today()\<close>,
  and the readers of the libraries, each given by what it returns for the bytes of a
  file. \<open>dict_reader\<close> is \<open>csv.DictReader\<close> on the decoded text and the delimiter: the
  rows it yields and the exception that ends the iteration, if one does. \<open>leer_pdf\<close>
  is the text of each page of the \<open>PdfReader\<close>; \<open>leer_hoja\<close> is the active sheet of
  \<open>load_workbook\<close>: the cells of row 1 and the rows from row 2 on.
\<close>

type_synonym bytes = "8 word list"

type_synonym fila_csv = "(string option \<times> pyval) list"

record entorno =
  PDF_SUPPORT :: bool
  EXCEL_SUPPORT :: bool
  hoy :: date
  decode_utf8 :: "bytes \<Rightarrow> excepcion + string"
  dict_reader :: "string \<Rightarrow> char \<Rightarrow> fila_csv list \<times> excepcion option"
  leer_pdf :: "bytes \<Rightarrow> excepcion + string list"
  leer_hoja :: "bytes \<Rightarrow> excepcion + pyval list \<times> pyval list list"

text \<open>
  \<open>_construir_estado_cuenta\<close>. The list is sorted by date (a stable sort), the totals
  are summed, the balances are searched in the text, and a balance that was not found
  is taken from the first or last transaction with \<open>or\<close>.
\<close>

definition construir_estado_cuenta ::
    "entorno \<Rightarrow> string \<Rightarrow> string \<Rightarrow> transaccion_bancaria list \<Rightarrow> string
     \<Rightarrow> excepcion + estado_cuenta_importado" where
  "construir_estado_cuenta env b c txs texto_completo =
     (if txs = [] then
        Inr \<lparr>banco = b, cuenta = c, moneda = ''MXN'', fecha_inicio = hoy env,
             fecha_fin = hoy env, saldo_inicial = Fin 0, saldo_final = Fin 0,
             transacciones = [], total_cargos = Fin 0, total_abonos = Fin 0\<rparr>
      else
        let ts = sort_key fecha txs in
        ligar (dec_sum (map cargo ts)) (\<lambda>tc.
        ligar (dec_sum (map abono ts)) (\<lambda>ta.
        ligar (case extraer_saldo_inicial texto_completo of
                 Some v \<Rightarrow> Inr v
               | None \<Rightarrow> saldo_or (saldo (hd ts)) (Inr (Fin 0))) (\<lambda>si.
        ligar (case extraer_saldo_final texto_completo of
                 Some v \<Rightarrow> Inr v
               | None \<Rightarrow> saldo_or (saldo (last ts))
                           (ligar (dec_add si ta) (\<lambda>x. dec_sub x tc))) (\<lambda>sf.
        Inr \<lparr>banco = b, cuenta = c, moneda = ''MXN'', fecha_inicio = fecha (hd ts),
             fecha_fin = fecha (last ts), saldo_inicial = si, saldo_final = sf,
             transacciones = ts, total_cargos = tc, total_abonos = ta\<rparr>)))))"

subsection \<open>The line parsers of the PDF adapter\<close>

text \<open>
  A transaction built with the defaults of the dataclass for the fields that the
  caller does not give.
\<close>

definition transaccion :: "date \<Rightarrow> string \<Rightarrow> string \<Rightarrow> decimal \<Rightarrow> decimal \<Rightarrow> decimal option
    \<Rightarrow> string \<Rightarrow> string \<Rightarrow> string option \<Rightarrow> transaccion_bancaria" where
  "transaccion f d r c a s limpio categoria rfc =
     \<lparr>fecha = f, descripcion = d, referencia = r, cargo = c, abono = a, saldo = s,
      concepto_limpio = limpio, categoria_sugerida = categoria,
      es_transferencia_interna = False, beneficiario_detectado = [],
      rfc_detectado = rfc\<rparr>"

text \<open>
  The pattern of \<open>_parsear_bbva\<close>:
  \<open>(\d{2}/\d{2}/\d{4})\s+(.+?)\s+([\d,]+\.\d{2})?\s+([\d,]+\.\d{2})?\s+([\d,]+\.\d{2})?\<close>.
\<close>

definition patron_bbva :: regex where
  "patron_bbva =
     secs [Grupo 1 (secs [digs 2 2, Car (CHR ''/''), digs 2 2, Car (CHR ''/''), digs 4 4]),
           esp1, Grupo 2 (Rep Punto 1 None False),
           esp1, opc (Grupo 3 rx_monto),
           esp1, opc (Grupo 4 rx_monto),
           esp1, opc (Grupo 5 rx_monto)]"

text \<open>\<open>match.group(n) or "0"\<close>.\<close>

definition grupo_or_cero :: "string option \<Rightarrow> string" where
  "grupo_or_cero g = (case g of None \<Rightarrow> ''0'' | Some t \<Rightarrow> if t = [] then ''0'' else t)"

text \<open>
  The body of the loop of \<open>_parsear_bbva\<close> for one line: \<open>Inr None\<close> when the pattern
  does not match, \<open>Inl\<close> when the \<open>try\<close> block raises (the loop then continues).
\<close>

definition linea_bbva :: "string \<Rightarrow> excepcion + transaccion_bancaria option" where
  "linea_bbva linea =
     (case re_search False patron_bbva linea of
        None \<Rightarrow> Inr None
      | Some m \<Rightarrow>
          ligar (grupo m 1) (\<lambda>g1.
          ligar (grupo m 2) (\<lambda>g2.
          ligar (grupo m 3) (\<lambda>g3.
          ligar (grupo m 4) (\<lambda>g4.
          ligar (grupo m 5) (\<lambda>g5.
          ligar (case g1 of None \<Rightarrow> Inl error_fecha | Some t \<Rightarrow> Inr t) (\<lambda>fecha_str.
          ligar (case g2 of None \<Rightarrow> Inl (error_none ''strip'') | Some t \<Rightarrow> Inr (py_strip t))
            (\<lambda>d.
          ligar (strptime fecha_str
                   [Dir_d, Literal (CHR ''/''), Dir_m, Literal (CHR ''/''), Dir_Y]) (\<lambda>f.
          ligar (py_Decimal (py_quitar (CHR '','') (grupo_or_cero g3))) (\<lambda>c.
          ligar (py_Decimal (py_quitar (CHR '','') (grupo_or_cero g4))) (\<lambda>a.
          ligar (case g5 of
                   None \<Rightarrow> Inr None
                 | Some t \<Rightarrow> if t = [] then Inr None
                             else ligar (py_Decimal (py_quitar (CHR '','') t))
                                    (\<lambda>x. Inr (Some x))) (\<lambda>s.
          Inr (Some (transaccion f d [] c a s [] (categorizar_transaccion d) None))))))))))))))"

text \<open>The loop over the lines: a line that raises is skipped.\<close>

fun lineas_bucle :: "(string \<Rightarrow> excepcion + transaccion_bancaria option) \<Rightarrow> string list
    \<Rightarrow> transaccion_bancaria list" where
  "lineas_bucle cuerpo [] = []"
| "lineas_bucle cuerpo (linea # lineas) =
     (case cuerpo linea of
        Inr (Some t) \<Rightarrow> t # lineas_bucle cuerpo lineas
      | Inr None \<Rightarrow> lineas_bucle cuerpo lineas
      | Inl e \<Rightarrow> lineas_bucle cuerpo lineas)"

definition parsear_bbva :: "string \<Rightarrow> transaccion_bancaria list" where
  "parsear_bbva texto = lineas_bucle linea_bbva (split_lineas texto)"

definition parsear_santander :: "string \<Rightarrow> transaccion_bancaria list" where
  "parsear_santander texto = []"

definition parsear_banorte :: "string \<Rightarrow> transaccion_bancaria list" where
  "parsear_banorte texto = []"

text \<open>
  The pattern of \<open>_parsear_generico\<close>:
  \<open>(\d{1,2}[/-]\d{1,2}[/-]\d{2,4}).*?(\d{1,3}(?:,\d{3})*\.\d{2})\<close>.
\<close>

definition rx_barra :: regex where
  "rx_barra = Clase [Uno (CHR ''/''), Uno (CHR ''-'')]"

definition patron_generico :: regex where
  "patron_generico =
     secs [Grupo 1 (secs [digs 1 2, rx_barra, digs 1 2, rx_barra, digs 2 4]),
           Rep Punto 0 None False,
           Grupo 2 (secs [digs 1 3, Rep (secs [Car (CHR '',''), digs 3 3]) 0 None True,
                          Car (CHR ''.''), digs 2 2])]"

text \<open>
  The formats that \<open>_parsear_generico\<close> tries: \<open>%d/%m/%Y\<close>, \<open>%d-%m-%Y\<close>, \<open>%m/%d/%Y\<close>,
  \<open>%d/%m/%y\<close>.
\<close>

definition formatos_genericos :: "directiva list list" where
  "formatos_genericos =
    [[Dir_d, Literal (CHR ''/''), Dir_m, Literal (CHR ''/''), Dir_Y],
     [Dir_d, Literal (CHR ''-''), Dir_m, Literal (CHR ''-''), Dir_Y],
     [Dir_m, Literal (CHR ''/''), Dir_d, Literal (CHR ''/''), Dir_Y],
     [Dir_d, Literal (CHR ''/''), Dir_m, Literal (CHR ''/''), Dir_y]]"

text \<open>
  The description of the generic parser, the rest of the line:
  \<open>linea[:match.start()].strip() + linea[match.end():].strip()\<close>.
\<close>

definition descripcion_generica :: "string \<Rightarrow> coincidencia \<Rightarrow> string" where
  "descripcion_generica linea m =
     py_strip (take (inicio m) linea) @ py_strip (drop (fin m) linea)"

text \<open>
  The body of the loop of \<open>_parsear_generico\<close> for one line. When no format reads the
  date, the \<open>else\<close> of the inner loop continues with the next line.
\<close>

definition linea_generico :: "string \<Rightarrow> excepcion + transaccion_bancaria option" where
  "linea_generico linea =
     (case re_search False patron_generico linea of
        None \<Rightarrow> Inr None
      | Some m \<Rightarrow>
          ligar (grupo m 1) (\<lambda>g1.
          ligar (case g1 of None \<Rightarrow> Inl error_fecha | Some t \<Rightarrow> Inr t) (\<lambda>fecha_str.
          ligar (primer_formato formatos_genericos fecha_str) (\<lambda>fo.
            case fo of
              None \<Rightarrow> Inr None
            | Some f \<Rightarrow>
                let d = descripcion_generica linea m in
                ligar (decimal_de_grupo m 2) (\<lambda>monto.
                Inr (Some (transaccion f (take 100 d) []
                             (if py_in ''cargo'' (py_lower d) then monto else Fin 0)
                             (if py_in ''abono'' (py_lower d) then monto else Fin 0)
                             None [] ''otros'' None)))))))"

definition parsear_generico :: "string \<Rightarrow> transaccion_bancaria list" where
  "parsear_generico texto = lineas_bucle linea_generico (split_lineas texto)"

subsection \<open>The CSV adapter\<close>

text \<open>
  \<open>_encontrar_campo\<close> over the keys of a row. A row of \<open>csv.DictReader\<close> has the key
  \<open>None\<close> when the line has more fields than the header, and \<open>key.lower()\<close> raises
  on it.
\<close>

fun alguna_opcion :: "string list \<Rightarrow> string \<Rightarrow> bool" where
  "alguna_opcion [] k = False"
| "alguna_opcion (opcion # opciones) k = (py_in opcion k \<or> alguna_opcion opciones k)"

fun encontrar_campo :: "string option list \<Rightarrow> string list \<Rightarrow> excepcion + string option" where
  "encontrar_campo [] opciones = Inr None"
| "encontrar_campo (None # ks) opciones = Inl (error_none ''lower'')"
| "encontrar_campo (Some k # ks) opciones =
     (if alguna_opcion opciones (py_lower k) then Inr (Some k)
      else encontrar_campo ks opciones)"

text \<open>\<open>row.get(key, default)\<close>; \<open>key\<close> may be \<open>None\<close>.\<close>

definition fila_get :: "fila_csv \<Rightarrow> string option \<Rightarrow> pyval \<Rightarrow> pyval" where
  "fila_get row k defecto = (case map_of row k of Some v \<Rightarrow> v | None \<Rightarrow> defecto)"

text \<open>\<open>not key\<close> for an optional string.\<close>

definition clave_falsa :: "string option \<Rightarrow> bool" where
  "clave_falsa k = (k = None \<or> k = Some [])"

text \<open>\<open>_parsear_fila_csv\<close>.\<close>

definition parsear_fila_csv :: "fila_csv \<Rightarrow> excepcion + transaccion_bancaria option" where
  "parsear_fila_csv row =
     (let ks = map fst row in
      ligar (encontrar_campo ks [''fecha'', ''date'', ''f'']) (\<lambda>fecha_key.
      ligar (encontrar_campo ks [''descripcion'', ''concepto'', ''description'']) (\<lambda>desc_key.
      ligar (encontrar_campo ks [''cargo'', ''debito'', ''debit'']) (\<lambda>cargo_key.
      ligar (encontrar_campo ks [''abono'', ''credito'', ''credit'']) (\<lambda>abono_key.
      ligar (encontrar_campo ks [''saldo'', ''balance'']) (\<lambda>saldo_key.
        if clave_falsa fecha_key \<or> clave_falsa desc_key then Inr None
        else
          ligar (parsear_fecha (fila_get row fecha_key PNone)) (\<lambda>fo.
            case fo of
              None \<Rightarrow> Inr None
            | Some f \<Rightarrow>
                let d = py_str (fila_get row desc_key (PStr [])) in
                ligar (parsear_monto (fila_get row cargo_key (PInt 0))) (\<lambda>c.
                ligar (parsear_monto (fila_get row abono_key (PInt 0))) (\<lambda>a.
                ligar (if clave_falsa saldo_key then Inr None
                       else ligar (parsear_monto (fila_get row saldo_key PNone))
                              (\<lambda>x. Inr (Some x))) (\<lambda>s.
                Inr (Some (transaccion f d [] c a s [] (categorizar_transaccion d)
                             None))))))))))))"

text \<open>
  The delimiter: of \<open>,\<close> \<open>;\<close> tab and \<open>|\<close> the first with the highest count in the
  sample, \<open>,\<close> when none occurs.
\<close>

fun delimitador_bucle :: "char list \<Rightarrow> string \<Rightarrow> char \<Rightarrow> nat \<Rightarrow> char" where
  "delimitador_bucle [] sample delimiter max_count = delimiter"
| "delimitador_bucle (d # ds) sample delimiter max_count =
     (if max_count < py_count d sample then delimitador_bucle ds sample d (py_count d sample)
      else delimitador_bucle ds sample delimiter max_count)"

definition detectar_delimitador :: "string \<Rightarrow> char" where
  "detectar_delimitador contenido =
     delimitador_bucle [CHR '','', CHR '';'', CHR 0x09, CHR ''|''] (take 1000 contenido)
       (CHR '','') 0"

text \<open>
  The loop over the rows: a transaction is appended, a row without one is skipped, and
  an exception appends \<open>"Error parseando fila: " + str(e)\<close> to \<open>self.errores\<close>.
\<close>

fun filas_csv_bucle :: "fila_csv list \<Rightarrow> transaccion_bancaria list \<Rightarrow> importador_estado_cuenta
    \<Rightarrow> transaccion_bancaria list \<times> importador_estado_cuenta" where
  "filas_csv_bucle [] txs imp = (txs, imp)"
| "filas_csv_bucle (row # rows) txs imp =
     (case parsear_fila_csv row of
        Inr (Some t) \<Rightarrow> filas_csv_bucle rows (txs @ [t]) imp
      | Inr None \<Rightarrow> filas_csv_bucle rows txs imp
      | Inl e \<Rightarrow>
          filas_csv_bucle rows txs
            (imp\<lparr>errores := errores imp @ [''Error parseando fila: '' @ mensaje e]\<rparr>))"

text \<open>
  \<open>_importar_csv\<close>. The result is the statement or the exception that leaves the call,
  and the importer object after the call.
\<close>

definition importar_csv :: "entorno \<Rightarrow> importador_estado_cuenta \<Rightarrow> bytes
    \<Rightarrow> (excepcion + estado_cuenta_importado) \<times> importador_estado_cuenta" where
  "importar_csv env imp archivo =
     (case decode_utf8 env archivo of
        Inl e \<Rightarrow> (Inl e, imp)
      | Inr contenido \<Rightarrow>
          (case dict_reader env contenido (detectar_delimitador contenido) of
             (rows, fallo) \<Rightarrow>
               (case filas_csv_bucle rows [] imp of
                  (txs, imp') \<Rightarrow>
                    (case fallo of
                       Some e \<Rightarrow> (Inl e, imp')
                     | None \<Rightarrow>
                         (construir_estado_cuenta env ''CSV'' [] txs contenido, imp')))))"

subsection \<open>The Excel adapter\<close>

text \<open>\<open>_encontrar_columna\<close>: the index of the first header that contains an option.\<close>

fun encontrar_columna_desde :: "nat \<Rightarrow> string list \<Rightarrow> string list \<Rightarrow> nat option" where
  "encontrar_columna_desde i [] opciones = None"
| "encontrar_columna_desde i (header # headers) opciones =
     (if alguna_opcion opciones (py_strip (py_lower header)) then Some i
      else encontrar_columna_desde (Suc i) headers opciones)"

definition encontrar_columna :: "string list \<Rightarrow> string list \<Rightarrow> nat option" where
  "encontrar_columna headers opciones = encontrar_columna_desde 0 headers opciones"

text \<open>
  \<open>row[col] if col is not None and col < len(row) else default\<close>.
\<close>

definition celda :: "pyval list \<Rightarrow> nat option \<Rightarrow> pyval \<Rightarrow> pyval" where
  "celda row col defecto =
     (case col of None \<Rightarrow> defecto | Some i \<Rightarrow> if i < length row then row ! i else defecto)"

text \<open>
  The body of the loop of \<open>_importar_excel\<close> for one row; \<open>cols\<close> are the columns of
  date, description, charge, credit, balance and reference.
\<close>

definition fila_excel :: "nat option \<times> nat option \<times> nat option \<times> nat option \<times> nat option
    \<times> nat option \<Rightarrow> pyval list \<Rightarrow> excepcion + transaccion_bancaria option" where
  "fila_excel cols row =
     (case cols of (col_fecha, col_desc, col_cargo, col_abono, col_saldo, col_ref) \<Rightarrow>
        if row = [] \<or> \<not> list_ex py_truthy row then Inr None
        else
          let fecha_val = celda row col_fecha PNone;
              desc_val = celda row col_desc (PStr []);
              cargo_val = celda row col_cargo (PInt 0);
              abono_val = celda row col_abono (PInt 0);
              saldo_val = celda row col_saldo PNone;
              ref_val = celda row col_ref (PStr [])
          in
          ligar (parsear_fecha fecha_val) (\<lambda>fo.
            case fo of
              None \<Rightarrow> Inr None
            | Some f \<Rightarrow>
                ligar (parsear_monto cargo_val) (\<lambda>c.
                ligar (parsear_monto abono_val) (\<lambda>a.
                ligar (if py_truthy saldo_val
                       then ligar (parsear_monto saldo_val) (\<lambda>x. Inr (Some x))
                       else Inr None) (\<lambda>s.
                let d = (if py_truthy desc_val then py_str desc_val else [])
                in Inr (Some (transaccion f d
                               (if py_truthy ref_val then py_str ref_val else [])
                               c a s (py_strip d) (categorizar_transaccion d)
                               (extraer_rfc d))))))))"

fun filas_excel_bucle :: "nat option \<times> nat option \<times> nat option \<times> nat option \<times> nat option
    \<times> nat option \<Rightarrow> pyval list list \<Rightarrow> transaccion_bancaria list \<Rightarrow> importador_estado_cuenta
    \<Rightarrow> transaccion_bancaria list \<times> importador_estado_cuenta" where
  "filas_excel_bucle cols [] txs imp = (txs, imp)"
| "filas_excel_bucle cols (row # rows) txs imp =
     (case fila_excel cols row of
        Inr (Some t) \<Rightarrow> filas_excel_bucle cols rows (txs @ [t]) imp
      | Inr None \<Rightarrow> filas_excel_bucle cols rows txs imp
      | Inl e \<Rightarrow>
          filas_excel_bucle cols rows txs
            (imp\<lparr>errores := errores imp @ [''Error en fila: '' @ mensaje e]\<rparr>))"

text \<open>\<open>_importar_excel\<close> (\<open>0xE1\<close> is the a with accent of the message).\<close>

definition importar_excel :: "entorno \<Rightarrow> importador_estado_cuenta \<Rightarrow> bytes
    \<Rightarrow> (excepcion + estado_cuenta_importado) \<times> importador_estado_cuenta" where
  "importar_excel env imp archivo =
     (if \<not> EXCEL_SUPPORT env then
        (Inl (Exc ImportError (''openpyxl no est'' @ [CHR 0xE1]
                @ '' instalado. Instalar con: pip install openpyxl'')), imp)
      else
        (case leer_hoja env archivo of
           Inl e \<Rightarrow> (Inl e, imp)
         | Inr (fila1, rows) \<Rightarrow>
             let headers = map (\<lambda>v. if py_truthy v then py_lower (py_str v) else []) fila1;
                 cols =
                   (encontrar_columna headers [''fecha'', ''date'', ''f''],
                    encontrar_columna headers
                      [''descripcion'', ''concepto'', ''description'', ''detalle''],
                    encontrar_columna headers
                      [''cargo'', ''debito'', ''debit'', ''egreso'', ''retiro''],
                    encontrar_columna headers
                      [''abono'', ''credito'', ''credit'', ''ingreso'', ''deposito''],
                    encontrar_columna headers [''saldo'', ''balance''],
                    encontrar_columna headers [''referencia'', ''ref'', ''numero'', ''folio''])
             in (case filas_excel_bucle cols rows [] imp of
                   (txs, imp') \<Rightarrow>
                     (construir_estado_cuenta env ''EXCEL'' [] txs [], imp'))))"

subsection \<open>The PDF adapter and \<open>importar\<close>\<close>

text \<open>\<open>_importar_pdf\<close>: the text is the text of every page, each followed by a newline.\<close>

definition importar_pdf :: "entorno \<Rightarrow> importador_estado_cuenta \<Rightarrow> bytes \<Rightarrow> string
    \<Rightarrow> (excepcion + estado_cuenta_importado) \<times> importador_estado_cuenta" where
  "importar_pdf env imp archivo nombre_archivo =
     (if \<not> PDF_SUPPORT env then
        (Inl (Exc ImportError (''PyPDF2 no est'' @ [CHR 0xE1]
                @ '' instalado. Instalar con: pip install PyPDF2'')), imp)
      else
        (case leer_pdf env archivo of
           Inl e \<Rightarrow> (Inl e, imp)
         | Inr paginas \<Rightarrow>
             let texto_completo = concat (map (\<lambda>pagina. pagina @ [CHR 0x0A]) paginas);
                 b = detectar_banco texto_completo;
                 txs = (if b = ''BBVA'' then parsear_bbva texto_completo
                        else if b = ''SANTANDER'' then parsear_santander texto_completo
                        else if b = ''BANORTE'' then parsear_banorte texto_completo
                        else parsear_generico texto_completo)
             in (construir_estado_cuenta env b (extraer_cuenta texto_completo) txs
                   texto_completo, imp)))"

text \<open>\<open>importar\<close>: the adapter is chosen by the lower-cased \<open>tipo_archivo\<close>.\<close>

definition importar :: "entorno \<Rightarrow> importador_estado_cuenta \<Rightarrow> bytes \<Rightarrow> string \<Rightarrow> string
    \<Rightarrow> (excepcion + estado_cuenta_importado) \<times> importador_estado_cuenta" where
  "importar env imp archivo tipo_archivo nombre_archivo =
     (let tipo_lower = py_lower tipo_archivo in
      if tipo_lower = ''pdf'' then importar_pdf env imp archivo nombre_archivo
      else if tipo_lower = ''csv'' then importar_csv env imp archivo
      else if tipo_lower \<in> set [''excel'', ''xlsx'', ''xls''] then importar_excel env imp archivo
      else (Inl (Exc ValueError (''Tipo de archivo no soportado: '' @ tipo_archivo)), imp))"

subsection \<open>The error of an unsupported type\<close>

text \<open>The \<open>ValueError\<close> that \<open>importar\<close> raises for a type it does not support.\<close>

definition error_tipo :: "string \<Rightarrow> excepcion" where
  "error_tipo tipo_archivo = Exc ValueError (''Tipo de archivo no soportado: '' @ tipo_archivo)"

text \<open>
  The readers of the libraries are foreign to that error: none of them raises it.
\<close>

definition lectores_ajenos :: "entorno \<Rightarrow> bool" where
  "lectores_ajenos env =
     (\<forall>b t. decode_utf8 env b \<noteq> Inl (error_tipo t)
          \<and> leer_pdf env b \<noteq> Inl (error_tipo t)
          \<and> leer_hoja env b \<noteq> Inl (error_tipo t)
          \<and> (\<forall>c d. snd (dict_reader env c d) \<noteq> Some (error_tipo t)))"

subsection \<open>The RFC shape in the words of the specification\<close>

text \<open>
  The specification describes the shape as 3 to 4 letters, 6 digits and 2 to 3
  alphanumerics. The letters of the pattern are A to Z, the ampersand and the capital N
  with tilde; its alphanumerics are A to Z and the digits.
\<close>

definition es_letra_rfc :: "char \<Rightarrow> bool" where
  "es_letra_rfc c = ((65 \<le> ord c \<and> ord c \<le> 90) \<or> c = CHR ''&'' \<or> c = CHR 0xD1)"

definition es_alnum_rfc :: "char \<Rightarrow> bool" where
  "es_alnum_rfc c = ((65 \<le> ord c \<and> ord c \<le> 90) \<or> es_digito c)"

definition forma_rfc :: "string \<Rightarrow> bool" where
  "forma_rfc w = (\<exists>a b c. w = a @ b @ c
      \<and> (length a = 3 \<or> length a = 4) \<and> list_all es_letra_rfc a
      \<and> length b = 6 \<and> list_all es_digito b
      \<and> (length c = 2 \<or> length c = 3) \<and> list_all es_alnum_rfc c)"

subsection \<open>Amounts of a bounded number of decimal places\<close>

text \<open>
  \<open>decimales_hasta k q\<close>: the number \<open>q\<close> has at most \<open>k\<close> digits after the decimal
  point, that is, \<open>q * 10^k\<close> is an integer. An amount in cents is \<open>decimales_hasta 2\<close>.
\<close>

definition decimales_hasta :: "nat \<Rightarrow> rat \<Rightarrow> bool" where
  "decimales_hasta k q = (of_int \<lfloor>q * 10 ^ k\<rfloor> = q * 10 ^ k)"

subsection \<open>Example inputs\<close>

text \<open>
  A file whose second line has one field more than its header
  (\<open>fecha,descripcion\<close> and \<open>01/03/2024,Pago,extra\<close>): \<open>csv.DictReader\<close> puts the
  extra field in a list under the key \<open>None\<close>. The same environment reads a PDF of one
  page without transactions and a worksheet that has a header row only.
\<close>

definition fila_sobrante :: fila_csv where
  "fila_sobrante =
     [(Some ''fecha'', PStr ''01/03/2024''), (Some ''descripcion'', PStr ''Pago''),
      (None, PObj True ''['extra']'')]"

definition entorno_ejemplo :: entorno where
  "entorno_ejemplo =
     \<lparr>PDF_SUPPORT = True, EXCEL_SUPPORT = True, hoy = (2026, 1, 1),
      decode_utf8 = (\<lambda>b. Inr (''fecha,descripcion'' @ [CHR 0x0A] @ ''01/03/2024,Pago,extra'')),
      dict_reader = (\<lambda>texto delimitador. ([fila_sobrante], None)),
      leer_pdf = (\<lambda>b. Inr [''Estado de cuenta'']),
      leer_hoja = (\<lambda>b. Inr ([PStr ''Fecha''], []))\<rparr>"

text \<open>
  A CSV file with a balance column whose last reported balance is \<open>0.00\<close>, and the
  rows that \<open>csv.DictReader\<close> yields for it.
\<close>

definition texto_saldo_cero :: string where
  "texto_saldo_cero =
     ''fecha,descripcion,cargo,abono,saldo'' @ [CHR 0x0A]
     @ ''01/03/2024,Deposito,0,100.00,100.00'' @ [CHR 0x0A]
     @ ''02/03/2024,Retiro,100.00,0,0.00''"

definition filas_saldo_cero :: "fila_csv list" where
  "filas_saldo_cero =
     [[(Some ''fecha'', PStr ''01/03/2024''), (Some ''descripcion'', PStr ''Deposito''),
       (Some ''cargo'', PStr ''0''), (Some ''abono'', PStr ''100.00''),
       (Some ''saldo'', PStr ''100.00'')],
      [(Some ''fecha'', PStr ''02/03/2024''), (Some ''descripcion'', PStr ''Retiro''),
       (Some ''cargo'', PStr ''100.00''), (Some ''abono'', PStr ''0''),
       (Some ''saldo'', PStr ''0.00'')]]"

definition entorno_saldo_cero :: entorno where
  "entorno_saldo_cero =
     \<lparr>PDF_SUPPORT = True, EXCEL_SUPPORT = True, hoy = (2026, 1, 1),
      decode_utf8 = (\<lambda>b. Inr texto_saldo_cero),
      dict_reader = (\<lambda>texto delimitador. (filas_saldo_cero, None)),
      leer_pdf = (\<lambda>b. Inr []),
      leer_hoja = (\<lambda>b. Inr ([], []))\<rparr>"

text \<open>A statement whose balances and totals the examples overwrite.\<close>

definition estado_ejemplo :: estado_cuenta_importado where
  "estado_ejemplo =
     \<lparr>banco = ''CSV'', cuenta = [], moneda = ''MXN'', fecha_inicio = (2024, 3, 1),
      fecha_fin = (2024, 3, 31), saldo_inicial = Fin 0, saldo_final = Fin 0,
      transacciones = [], total_cargos = Fin 0, total_abonos = Fin 0\<rparr>"

section \<open>Properties\<close>

subsection \<open>Evaluation\<close>

text \<open>The defining equations that the simplifier needs to run the model on an input.\<close>

lemmas ev_cadenas = ord_def es_mayuscula_def lower_char_def py_lower_def upper_char_def
  py_upper_def es_espacio_def es_digito_def es_palabra_def py_strip_def py_quitar_def
  py_count_def Let_def

lemmas ev_regex = casa.simps buscar_desde.simps repetir.simps en_clase_def re_search_def
  re_match_def grupo0_def secs_def cad_def todo_def digs_def esp1_def esp0_def opc_def grupo_def

lemmas ev_decimal = conversion_syntax_def invalid_operation_def pot10_def valor_digitos_def
  signo_y_resto_def exponente_def py_Decimal_def dec_sub_def dec_sum_def ligar_def
  decimal_de_grupo_def

text \<open>The floor of a quotient of numerals, which the rounding of a decimal evaluates.\<close>

lemma floor_rat_div: "\<lfloor>numeral a / (numeral b :: rat)\<rfloor> = numeral a div numeral b"
  using floor_divide_of_int_eq [of "numeral a" "numeral b", where ?'a = rat] by simp

lemma floor_rat_neg_div: "\<lfloor>- (numeral a / (numeral b :: rat))\<rfloor> = - numeral a div numeral b"
  using floor_divide_of_int_eq [of "- numeral a" "numeral b", where ?'a = rat] by simp

lemma floor_rat_one_div: "\<lfloor>1 / (numeral b :: rat)\<rfloor> = 1 div numeral b"
  using floor_divide_of_int_eq [of 1 "numeral b", where ?'a = rat] by simp

lemma floor_rat_neg_one_div: "\<lfloor>- (1 / (numeral b :: rat))\<rfloor> = - 1 div numeral b"
  using floor_divide_of_int_eq [of "- 1" "numeral b", where ?'a = rat] by simp

lemmas ev_redondeo = overflow_def prec_def Emax_def Emin_def Etiny_def Etop_def pot10_def
  exp_alto.simps exp_bajo.simps ajustado_def redondear_par_def dec_fix_def Let_def
  floor_rat_div floor_rat_neg_div floor_rat_one_div floor_rat_neg_one_div

lemmas ev_fechas = es_bisiesto_def dias_del_mes_def fecha_valida_def formato_regex_def
  valor_int_def error_fecha_def strptime_def formatos_def parsear_fecha_def

lemmas ev_categorias = categorizar_transaccion_def CATEGORIAS_def con_todo_def con_acento_def

lemmas ev_saldos = rx_monto_def rx_sep_def patrones_saldo_inicial_def patrones_saldo_final_def
  extraer_saldo_inicial_def extraer_saldo_final_def

lemmas ev_generico = rx_barra_def patron_generico_def formatos_genericos_def
  descripcion_generica_def linea_generico_def parsear_generico_def transaccion_def

lemmas ev_csv = error_none_def fila_get_def clave_falsa_def parsear_fila_csv_def
  parsear_monto_def transaccion_def

subsection \<open>The balance check\<close>

lemma decimal_un_centavo: "py_Decimal ''0.01'' = Inr (Fin (1 / 100))"
  by (simp add: ev_cadenas ev_decimal)

lemma pot10_pos: "0 < pot10 k"
  by (simp add: pot10_def)

lemma pot10_nat: "pot10 (int n) = 10 ^ n"
  by (simp add: pot10_def)

lemma pot10_neg: "pot10 (- int n) = 1 / 10 ^ n"
  by (simp add: pot10_def)

lemma exp_alto_le: "r < 10 ^ Suc n \<Longrightarrow> exp_alto r \<le> n"
proof (induction n arbitrary: r)
  case 0
  then show ?case by (simp add: exp_alto.simps)
next
  case (Suc n)
  show ?case
  proof (cases "r < 10")
    case True
    then show ?thesis by (simp add: exp_alto.simps)
  next
    case False
    from Suc.prems have "r / 10 < 10 ^ Suc n" by simp
    from Suc.IH [OF this] False show ?thesis by (subst exp_alto.simps) simp
  qed
qed

lemma exp_bajo_gt: "0 < r \<Longrightarrow> r < 1 / 10 ^ n \<Longrightarrow> n < exp_bajo r"
proof (induction n arbitrary: r)
  case 0
  then show ?case by (subst exp_bajo.simps) simp
next
  case (Suc n)
  from Suc.prems have "r < 1 / 10 ^ Suc n" by simp
  also have "\<dots> \<le> (1 :: rat)"
  proof -
    have "(1 :: rat) \<le> 10 ^ Suc n" by (rule one_le_power) simp
    then show ?thesis by (simp add: divide_le_eq)
  qed
  finally have r1: "r < 1" .
  from Suc.prems have "r * 10 < 1 / 10 ^ n" by (simp add: field_simps)
  moreover from Suc.prems have "0 < r * 10" by simp
  ultimately have "n < exp_bajo (r * 10)" by (rule Suc.IH [rotated])
  with r1 Suc.prems(1) show ?case by (subst exp_bajo.simps) simp
qed

lemma ajustado_lt:
  assumes "r \<noteq> 0" and "\<bar>r\<bar> < pot10 j"
  shows "ajustado r < j"
proof (cases "1 \<le> \<bar>r\<bar>")
  case True
  with assms(2) have "1 < pot10 j" by simp
  have "0 < j"
  proof (rule ccontr)
    assume "\<not> 0 < j"
    with \<open>1 < pot10 j\<close> have "(10 :: rat) ^ nat (- j) < 1"
      by (cases "j = 0") (simp_all add: pot10_def)
    moreover have "(1 :: rat) \<le> 10 ^ nat (- j)" by (rule one_le_power) simp
    ultimately show False by simp
  qed
  then have "j = int (Suc (nat (j - 1)))" by simp
  then obtain n where j: "j = int (Suc n)" ..
  with assms(2) have "\<bar>r\<bar> < 10 ^ Suc n" by (simp only: pot10_nat)
  then have "exp_alto \<bar>r\<bar> \<le> n" by (rule exp_alto_le)
  with True j show ?thesis by (simp add: ajustado_def)
next
  case False
  from assms(1) have p: "0 < \<bar>r\<bar>" by simp
  show ?thesis
  proof (cases "0 < j")
    case True
    with False show ?thesis by (simp add: ajustado_def)
  next
    case f: False
    then have "j = - int (nat (- j))" by simp
    with assms(2) have "\<bar>r\<bar> < 1 / 10 ^ nat (- j)" by (metis pot10_neg)
    with p have "nat (- j) < exp_bajo \<bar>r\<bar>" by (rule exp_bajo_gt)
    with False f show ?thesis by (simp add: ajustado_def)
  qed
qed

lemma redondear_par_of_int: "redondear_par (of_int n) = n"
  by (simp add: redondear_par_def)

lemma decimales_hasta_iff: "decimales_hasta k q \<longleftrightarrow> (\<exists>m. q * 10 ^ k = of_int m)"
  unfolding decimales_hasta_def by (rule of_int_floor_cancel)





text \<open>A number of at most 28 significant digits is not rounded.\<close>

lemma dec_fix_exacto:
  assumes h: "decimales_hasta k r" and k: "k \<le> 28" and b: "\<bar>r\<bar> < 10 ^ (28 - k)"
  shows "dec_fix r = Inr (Fin r)"
proof (cases "r = 0")
  case True
  then show ?thesis by (simp add: dec_fix_def)
next
  case False
  from h obtain m where m: "r * 10 ^ k = of_int m" unfolding decimales_hasta_iff ..
  from k have "int (28 - k) = 28 - int k" by simp
  with b have "\<bar>r\<bar> < pot10 (28 - int k)" by (metis pot10_nat)
  with False have a: "ajustado r < 28 - int k" by (rule ajustado_lt)
  define q where "q = max (ajustado r + 1 - prec) Etiny"
  define d where "d = nat (- q - int k)"
  from a k have q: "q = - int (k + d)"
    by (simp add: q_def d_def prec_def Etiny_def Emin_def max_def)
  then have p: "pot10 q = 1 / 10 ^ (k + d)" by (simp only: pot10_neg)
  have "r / pot10 q = r * 10 ^ k * 10 ^ d" by (simp add: p power_add)
  also have "\<dots> = of_int (m * 10 ^ d)" by (simp add: m)
  finally have "redondear_par (r / pot10 q) = m * 10 ^ d" by (simp only: redondear_par_of_int)
  then have "of_int (redondear_par (r / pot10 q)) * pot10 q = r * 10 ^ k * 10 ^ d * pot10 q"
    by (simp add: m)
  also have "\<dots> = r" by (simp add: p power_add)
  finally have v: "of_int (redondear_par (r / pot10 q)) * pot10 q = r" .
  from a have "\<not> Etop < ajustado r + 1 - prec" by (simp add: Etop_def Emax_def prec_def)
  moreover from a have "\<not> Emax < ajustado r" by (simp add: Emax_def)
  ultimately show ?thesis using False v
    by (simp add: dec_fix_def Let_def q_def [symmetric])
qed


lemma dec_fix_Inr: "dec_fix r = Inr d \<Longrightarrow> \<exists>v. d = Fin v"
  by (auto simp: dec_fix_def Let_def split: if_splits)








text \<open>
  The claim as written fails for amounts of more digits, in both directions, because
  each sum is rounded to 28 significant digits. In the first statement the exact
  difference is 0.01, which is not under 0.01, and the statement is verified:
  \<open>99999999999999999999999999.99 + 0.02\<close> is rounded to \<open>10^26\<close>. In the second the
  opening and the closing balance are the same number of 29 digits and nothing moves,
  so that the exact difference is 0, and the statement is not verified: the opening
  balance plus 0 is rounded up by 1.
\<close>

theorem balance_verificado_redondeo_counterexample:
  "balance_verificado (estado_ejemplo\<lparr>saldo_inicial := Fin (9999999999999999999999999999 / 100),
       total_abonos := Fin (2 / 100), total_cargos := Fin 0,
       saldo_final := Fin 100000000000000000000000000\<rparr>) = Inr True
   \<and> \<not> \<bar>9999999999999999999999999999 / 100 + 2 / 100 - 0 - 100000000000000000000000000 :: rat\<bar>
         < 1 / 100
   \<and> balance_verificado (estado_ejemplo\<lparr>saldo_inicial := Fin 12345678901234567890123456789,
       total_abonos := Fin 0, total_cargos := Fin 0,
       saldo_final := Fin 12345678901234567890123456789\<rparr>) = Inr False
   \<and> \<bar>12345678901234567890123456789 + 0 - 0 - 12345678901234567890123456789 :: rat\<bar>
         < 1 / 100"
proof (intro conjI)
  have 1: "dec_fix (9999999999999999999999999999 / 100 + 2 / 100) =
      Inr (Fin 100000000000000000000000000)"
    by (simp add: ev_redondeo)
  show "balance_verificado (estado_ejemplo\<lparr>saldo_inicial := Fin (9999999999999999999999999999 / 100),
       total_abonos := Fin (2 / 100), total_cargos := Fin 0,
       saldo_final := Fin 100000000000000000000000000\<rparr>) = Inr True"
    using 1 dec_fix_exacto [of 0 100000000000000000000000000]
    by (simp add: balance_verificado_def ligar_def dec_sub_def decimales_hasta_def dec_fix_def)
  have 2: "dec_fix 12345678901234567890123456789 = Inr (Fin 12345678901234567890123456790)"
    by (simp add: ev_redondeo)
  have 3: "dec_fix 1 = Inr (Fin 1)"
    using dec_fix_exacto [of 0 1] by (simp add: decimales_hasta_def)
  have 4: "dec_fix 12345678901234567890123456790 = Inr (Fin 12345678901234567890123456790)"
    by (simp add: ev_redondeo)
  show "balance_verificado (estado_ejemplo\<lparr>saldo_inicial := Fin 12345678901234567890123456789,
       total_abonos := Fin 0, total_cargos := Fin 0,
       saldo_final := Fin 12345678901234567890123456789\<rparr>) = Inr False"
    using 2 3 4
    by (simp add: balance_verificado_def ligar_def dec_sub_def)
qed simp_all


subsection \<open>The matcher on the RFC pattern\<close>

lemma casa_Clase_mem:
  "(s1, g1) \<in> set (casa ic (Clase its) s g) \<longleftrightarrow>
     (\<exists>x. s = x # s1 \<and> g1 = g \<and> en_clase ic its x)"
  by (cases s) (auto simp: casa.simps)

lemma casa_Sec_mem:
  "(s', g') \<in> set (casa ic (Sec a b) s g) \<longleftrightarrow>
     (\<exists>s1 g1. (s1, g1) \<in> set (casa ic a s g) \<and> (s', g') \<in> set (casa ic b s1 g1))"
  by (auto simp: casa.simps)

lemma casa_Rep: "casa ic (Rep r lo hi cod) s g = repetir (casa ic r) lo hi cod s g"
  by (simp add: casa.simps)

lemma casa_Vacio_mem: "(s', g') \<in> set (casa ic Vacio s g) \<longleftrightarrow> s' = s \<and> g' = g"
  by (auto simp: casa.simps)

text \<open>
  Every result of a repeated character class has consumed a word of the class whose
  length is within the bounds, and has captured nothing.
\<close>

lemma repetir_clase:
  "(s', g') \<in> set (repetir (casa ic (Clase its)) lo hi cod s g) \<Longrightarrow>
     \<exists>w. s = w @ s' \<and> g' = g \<and> lo \<le> length w \<and> (\<forall>n. hi = Some n \<longrightarrow> length w \<le> n)
         \<and> (\<forall>c \<in> set w. en_clase ic its c)"
proof (induction "casa ic (Clase its)" lo hi cod s g arbitrary: s' g' rule: repetir.induct)
  case (1 lo hi cod s g)
  let ?m = "casa ic (Clase its)"
  from "1.prems" have "(s', g') \<in> set (if agotado hi then []
                 else concat (map (\<lambda>(s1, g1). if length s1 < length s
                                     then repetir ?m (lo - 1) (menos1 hi) cod s1 g1 else [])
                              (?m s g)))
       \<or> (s', g') \<in> set (if lo = 0 then [(s, g)] else [])"
    by (subst (asm) repetir.simps) (auto simp: Let_def split: if_splits)
  then show ?case
  proof
    assume "(s', g') \<in> set (if lo = 0 then [(s, g)] else [])"
    then have "lo = 0" "s' = s" "g' = g" by (auto split: if_splits)
    then show ?thesis by auto
  next
    assume a: "(s', g') \<in> set (if agotado hi then []
                 else concat (map (\<lambda>(s1, g1). if length s1 < length s
                                     then repetir ?m (lo - 1) (menos1 hi) cod s1 g1 else [])
                              (?m s g)))"
    then have na: "\<not> agotado hi" by (auto split: if_splits)
    from a na obtain s1 g1 where
      m: "(s1, g1) \<in> set (?m s g)" and l: "length s1 < length s" and
      r: "(s', g') \<in> set (repetir ?m (lo - 1) (menos1 hi) cod s1 g1)"
      by (auto split: if_splits)
    from m obtain x where x: "s = x # s1" "g1 = g" "en_clase ic its x"
      unfolding casa_Clase_mem by blast
    from "1.hyps" [OF na m refl l r] obtain w where
      w: "s1 = w @ s'" "g' = g1" "lo - 1 \<le> length w"
         "\<forall>n. menos1 hi = Some n \<longrightarrow> length w \<le> n" "\<forall>c \<in> set w. en_clase ic its c"
      by blast
    have "s = (x # w) @ s'" using x w by simp
    moreover have "g' = g" using x w by simp
    moreover have "lo \<le> length (x # w)" using w by simp
    moreover have "\<forall>n. hi = Some n \<longrightarrow> length (x # w) \<le> n"
      using w na by (cases hi) auto
    moreover have "\<forall>c \<in> set (x # w). en_clase ic its c" using x w by simp
    ultimately show ?thesis by blast
  qed
qed

lemma casa_patron_rfc:
  assumes "(s', g') \<in> set (casa False patron_rfc s [])"
  shows "\<exists>w. s = w @ s' \<and> forma_rfc w"
proof -
  from assms obtain s1 g1 s2 g2 where
    a: "(s1, g1) \<in> set (repetir (casa False (Clase [Rango (CHR ''A'') (CHR ''Z''),
           Uno (CHR ''&''), Uno (CHR 0xD1)])) 3 (Some 4) True s [])" and
    b: "(s2, g2) \<in> set (repetir (casa False (Clase [Rango (CHR ''0'') (CHR ''9'')]))
           6 (Some 6) True s1 g1)" and
    c: "(s', g') \<in> set (repetir (casa False (Clase [Rango (CHR ''A'') (CHR ''Z''),
           Rango (CHR ''0'') (CHR ''9'')])) 2 (Some 3) True s2 g2)"
    by (auto simp only: patron_rfc_def secs_def foldr.simps o_apply id_apply casa_Sec_mem
        casa_Rep casa_Vacio_mem)
  from repetir_clase [OF a] obtain wa where
    wa: "s = wa @ s1" "3 \<le> length wa" "length wa \<le> 4"
        "\<forall>c \<in> set wa. en_clase False [Rango (CHR ''A'') (CHR ''Z''), Uno (CHR ''&''),
            Uno (CHR 0xD1)] c"
    by auto
  from repetir_clase [OF b] obtain wb where
    wb: "s1 = wb @ s2" "6 \<le> length wb" "length wb \<le> 6"
        "\<forall>c \<in> set wb. en_clase False [Rango (CHR ''0'') (CHR ''9'')] c"
    by auto
  from repetir_clase [OF c] obtain wc where
    wc: "s2 = wc @ s'" "2 \<le> length wc" "length wc \<le> 3"
        "\<forall>c \<in> set wc. en_clase False [Rango (CHR ''A'') (CHR ''Z''),
            Rango (CHR ''0'') (CHR ''9'')] c"
    by auto
  have "list_all es_letra_rfc wa"
    using wa(4) by (auto simp: list_all_iff en_clase_def es_letra_rfc_def ord_def)
  moreover have "list_all es_digito wb"
    using wb(4) by (auto simp: list_all_iff en_clase_def es_digito_def ord_def)
  moreover have "list_all es_alnum_rfc wc"
    using wc(4) by (auto simp: list_all_iff en_clase_def es_alnum_rfc_def es_digito_def ord_def)
  moreover have "length wa = 3 \<or> length wa = 4" using wa by linarith
  moreover have "length wb = 6" using wb by linarith
  moreover have "length wc = 2 \<or> length wc = 3" using wc by linarith
  moreover have "s = (wa @ wb @ wc) @ s'" using wa wb wc by simp
  ultimately have "s = (wa @ wb @ wc) @ s' \<and> forma_rfc (wa @ wb @ wc)"
    unfolding forma_rfc_def by blast
  then show ?thesis by blast
qed

text \<open>
  A search that succeeds reports the first result of the matcher at the leftmost
  position where the matcher has a result.
\<close>

lemma buscar_desde_Some:
  "buscar_desde ic r i s = Some m \<Longrightarrow>
     \<exists>k s' g resto. k \<le> length s \<and> inicio m = i + k
        \<and> casa ic r (drop k s) [] = (s', g) # resto
        \<and> fin m = inicio m + (length (drop k s) - length s')
        \<and> (\<forall>j<k. casa ic r (drop j s) [] = [])"
proof (induction ic r i s rule: buscar_desde.induct)
  case (1 ic r i s)
  show ?case
  proof (cases "casa ic r s []")
    case Nil
    from "1.prems" Nil
    have "(case s of [] \<Rightarrow> None | _ # t \<Rightarrow> buscar_desde ic r (Suc i) t) = Some m"
      by (subst (asm) buscar_desde.simps) simp
    then obtain x t where s: "s = x # t" and b: "buscar_desde ic r (Suc i) t = Some m"
      by (cases s) simp_all
    from "1.IH" [OF Nil s b] obtain k s' g resto where
      k: "k \<le> length t" "inicio m = Suc i + k" "casa ic r (drop k t) [] = (s', g) # resto"
         "fin m = inicio m + (length (drop k t) - length s')"
         "\<forall>j<k. casa ic r (drop j t) [] = []" by blast
    have "\<forall>j<Suc k. casa ic r (drop j s) [] = []"
    proof (intro allI impI)
      fix j assume "j < Suc k"
      then show "casa ic r (drop j s) [] = []"
        using Nil k(5) s by (cases j) auto
    qed
    with k s show ?thesis
      by (intro exI [of _ "Suc k"] exI [of _ s'] exI [of _ g] exI [of _ resto]) auto
  next
    case (Cons p ps)
    obtain s' g where p: "p = (s', g)" by (cases p)
    with Cons "1.prems"
    have "m = \<lparr>inicio = i, fin = i + (length s - length s'), capturas = g,
                n_grupos = num_grupos r\<rparr>"
      by (subst (asm) buscar_desde.simps) simp
    with Cons p show ?thesis
      by (intro exI [of _ 0] exI [of _ s'] exI [of _ g] exI [of _ ps]) auto
  qed
qed

lemma re_search_patron_rfc:
  assumes "re_search False patron_rfc s = Some m"
  shows "forma_rfc (grupo0 s m)
     \<and> (\<exists>pre post. s = pre @ grupo0 s m @ post
           \<and> (\<forall>j<length pre. casa False patron_rfc (drop j s) [] = []))"
proof -
  from buscar_desde_Some [OF assms [unfolded re_search_def]] obtain k s' g resto where
    k: "k \<le> length s" "inicio m = k" "casa False patron_rfc (drop k s) [] = (s', g) # resto"
       "fin m = inicio m + (length (drop k s) - length s')"
       "\<forall>j<k. casa False patron_rfc (drop j s) [] = []" by auto
  from k(3) have "(s', g) \<in> set (casa False patron_rfc (drop k s) [])" by simp
  from casa_patron_rfc [OF this] obtain w where w: "drop k s = w @ s'" "forma_rfc w"
    by blast
  have g0: "grupo0 s m = w" using k w by (simp add: grupo0_def)
  have "s = take k s @ w @ s'" using w(1) by (metis append_take_drop_id)
  then have "s = take k s @ grupo0 s m @ s'
      \<and> (\<forall>j<length (take k s). casa False patron_rfc (drop j s) [] = [])"
    using g0 k by simp
  then have "\<exists>pre post. s = pre @ grupo0 s m @ post
           \<and> (\<forall>j<length pre. casa False patron_rfc (drop j s) [] = [])" by blast
  with g0 w show ?thesis by simp
qed

lemma forma_rfc_length: "forma_rfc w \<Longrightarrow> length w = 11 \<or> length w = 12 \<or> length w = 13"
  by (auto simp: forma_rfc_def)

lemma extraer_rfc_ejemplo:
  "extraer_rfc ''Pago a ABC010101AB9 por servicios'' = Some ''ABC010101AB9''"
  by (simp add: extraer_rfc_def patron_rfc_def ev_cadenas ev_regex)

lemma rfc_dentro_de_catorce: "extraer_rfc ''ABCD010101AB9X'' = Some ''ABCD010101AB9''"
  by (simp add: extraer_rfc_def patron_rfc_def ev_cadenas ev_regex)

text \<open>
  Claim C2, as amended. \<open>extraer_rfc\<close> returns the leftmost match of the RFC shape
  (3 to 4 letters, 6 digits, 2 to 3 alphanumerics) in the upper-cased text when that
  match has 12 or 13 characters, and \<open>None\<close> when there is no match or when the
  leftmost match has 11 characters. For \<open>Pago a ABC010101AB9 por servicios\<close> it returns
  the 12-character token. The pattern is not anchored, so a run of 14 alphanumerics of
  that shape is not rejected: the match inside it is returned, \<open>ABCD010101AB9\<close> for
  \<open>ABCD010101AB9X\<close>.
\<close>

theorem extraer_rfc_forma:
  "(extraer_rfc texto = Some rfc \<longrightarrow>
       forma_rfc rfc \<and> (length rfc = 12 \<or> length rfc = 13)
       \<and> (\<exists>pre post. py_upper texto = pre @ rfc @ post
             \<and> (\<forall>j<length pre. casa False patron_rfc (drop j (py_upper texto)) [] = [])))
   \<and> (extraer_rfc texto = None \<longleftrightarrow>
        re_search False patron_rfc (py_upper texto) = None
        \<or> (\<exists>m. re_search False patron_rfc (py_upper texto) = Some m
               \<and> length (grupo0 (py_upper texto) m) = 11))
   \<and> extraer_rfc ''Pago a ABC010101AB9 por servicios'' = Some ''ABC010101AB9''
   \<and> extraer_rfc ''ABCD010101AB9X'' = Some ''ABCD010101AB9''"
proof (intro conjI)
  show "extraer_rfc texto = Some rfc \<longrightarrow>
       forma_rfc rfc \<and> (length rfc = 12 \<or> length rfc = 13)
       \<and> (\<exists>pre post. py_upper texto = pre @ rfc @ post
             \<and> (\<forall>j<length pre. casa False patron_rfc (drop j (py_upper texto)) [] = []))"
  proof
    assume a: "extraer_rfc texto = Some rfc"
    then obtain m where m: "re_search False patron_rfc (py_upper texto) = Some m"
        "rfc = grupo0 (py_upper texto) m" "length rfc = 12 \<or> length rfc = 13"
      by (auto simp: extraer_rfc_def Let_def split: option.splits if_splits)
    from re_search_patron_rfc [OF m(1)] m(2,3)
    show "forma_rfc rfc \<and> (length rfc = 12 \<or> length rfc = 13)
       \<and> (\<exists>pre post. py_upper texto = pre @ rfc @ post
             \<and> (\<forall>j<length pre. casa False patron_rfc (drop j (py_upper texto)) [] = []))"
      by simp
  qed
  show "extraer_rfc texto = None \<longleftrightarrow>
        re_search False patron_rfc (py_upper texto) = None
        \<or> (\<exists>m. re_search False patron_rfc (py_upper texto) = Some m
               \<and> length (grupo0 (py_upper texto) m) = 11)"
  proof (cases "re_search False patron_rfc (py_upper texto)")
    case None
    then show ?thesis by (simp add: extraer_rfc_def)
  next
    case (Some m)
    from re_search_patron_rfc [OF Some] forma_rfc_length
    have "length (grupo0 (py_upper texto) m) = 11 \<or> length (grupo0 (py_upper texto) m) = 12
        \<or> length (grupo0 (py_upper texto) m) = 13" by blast
    with Some show ?thesis by (auto simp: extraer_rfc_def Let_def)
  qed
  show "extraer_rfc ''Pago a ABC010101AB9 por servicios'' = Some ''ABC010101AB9''"
    by (rule extraer_rfc_ejemplo)
  show "extraer_rfc ''ABCD010101AB9X'' = Some ''ABCD010101AB9''"
    by (rule rfc_dentro_de_catorce)
qed

theorem extraer_rfc_forma_witness:
  "extraer_rfc ''Pago a ABC010101AB9 por servicios'' = Some ''ABC010101AB9''
   \<and> forma_rfc ''ABC010101AB9'' \<and> length ''ABC010101AB9'' = 12"
  using extraer_rfc_forma [of "''Pago a ABC010101AB9 por servicios''" "''ABC010101AB9''"]
  by simp

text \<open>
  The claim as written fails: the text is a single run of 14 alphanumerics of the
  shape (4 letters, 6 digits, 4 alphanumerics; or 5 letters, 6 digits, 3
  alphanumerics), and a token is returned.
\<close>

theorem extraer_rfc_catorce_counterexample:
  "length ''ABCD010101AB9X'' = 14
   \<and> extraer_rfc ''ABCD010101AB9X'' = Some ''ABCD010101AB9''
   \<and> length ''ABCDE010101AB9'' = 14
   \<and> extraer_rfc ''ABCDE010101AB9'' = Some ''BCDE010101AB9''"
  by (simp add: extraer_rfc_def patron_rfc_def ev_cadenas ev_regex)

subsection \<open>The error list of the importer\<close>

text \<open>
  The loop over the rows only appends to \<open>errores\<close>, and what it appends and what it
  collects do not depend on the importer it starts from.
\<close>

lemma filas_csv_bucle_errores:
  "\<exists>es. \<forall>txs imp. snd (filas_csv_bucle rows txs imp) = imp\<lparr>errores := errores imp @ es\<rparr>"
proof (induction rows)
  case Nil
  show ?case by (intro exI [of _ "[]"]) simp
next
  case (Cons row rows)
  then obtain es where es:
    "\<And>txs imp. snd (filas_csv_bucle rows txs imp) = imp\<lparr>errores := errores imp @ es\<rparr>"
    by blast
  show ?case
  proof (cases "parsear_fila_csv row")
    case (Inl e)
    show ?thesis
      by (intro exI [of _ "(''Error parseando fila: '' @ mensaje e) # es"]) (simp add: Inl es)
  next
    case (Inr r)
    show ?thesis
      by (intro exI [of _ es]) (cases r; simp add: Inr es)
  qed
qed

lemma filas_csv_bucle_txs:
  "fst (filas_csv_bucle rows txs imp) = fst (filas_csv_bucle rows txs imp')"
  by (induction rows arbitrary: txs imp imp') (auto split: sum.splits option.splits)

lemma filas_excel_bucle_errores:
  "\<exists>es. \<forall>txs imp.
     snd (filas_excel_bucle cols rows txs imp) = imp\<lparr>errores := errores imp @ es\<rparr>"
proof (induction rows)
  case Nil
  show ?case by (intro exI [of _ "[]"]) simp
next
  case (Cons row rows)
  then obtain es where es:
    "\<And>txs imp.
       snd (filas_excel_bucle cols rows txs imp) = imp\<lparr>errores := errores imp @ es\<rparr>"
    by blast
  show ?case
  proof (cases "fila_excel cols row")
    case (Inl e)
    show ?thesis
      by (intro exI [of _ "(''Error en fila: '' @ mensaje e) # es"]) (simp add: Inl es)
  next
    case (Inr r)
    show ?thesis
      by (intro exI [of _ es]) (cases r; simp add: Inr es)
  qed
qed

lemma filas_excel_bucle_txs:
  "fst (filas_excel_bucle cols rows txs imp) = fst (filas_excel_bucle cols rows txs imp')"
  by (induction rows arbitrary: txs imp imp') (auto split: sum.splits option.splits)

lemma importar_csv_errores:
  "errores (snd (importar_csv env imp archivo))
     = errores imp @ errores (snd (importar_csv env importador_nuevo archivo))
   \<and> fst (importar_csv env imp archivo) = fst (importar_csv env importador_nuevo archivo)"
proof (cases "decode_utf8 env archivo")
  case (Inl e)
  then show ?thesis by (simp add: importar_csv_def importador_nuevo_def)
next
  case (Inr contenido)
  obtain rows fallo where
    d: "dict_reader env contenido (detectar_delimitador contenido) = (rows, fallo)"
    by (cases "dict_reader env contenido (detectar_delimitador contenido)")
  obtain es where es:
    "\<And>txs imp. snd (filas_csv_bucle rows txs imp) = imp\<lparr>errores := errores imp @ es\<rparr>"
    using filas_csv_bucle_errores [of rows] by blast
  have t: "fst (filas_csv_bucle rows [] imp) = fst (filas_csv_bucle rows [] importador_nuevo)"
    by (rule filas_csv_bucle_txs)
  obtain txs i1 where b1: "filas_csv_bucle rows [] imp = (txs, i1)"
    by (cases "filas_csv_bucle rows [] imp")
  obtain txs' i2 where b2: "filas_csv_bucle rows [] importador_nuevo = (txs', i2)"
    by (cases "filas_csv_bucle rows [] importador_nuevo")
  from t b1 b2 have tt: "txs' = txs" by simp
  from es [of "[]" imp] b1 have e1: "i1 = imp\<lparr>errores := errores imp @ es\<rparr>" by simp
  from es [of "[]" importador_nuevo] b2 have e2: "i2 = importador_nuevo\<lparr>errores := es\<rparr>"
    by (simp add: importador_nuevo_def)
  show ?thesis
    by (cases fallo) (simp_all add: importar_csv_def Inr d b1 b2 tt e1 e2)
qed

lemma importar_excel_errores:
  "errores (snd (importar_excel env imp archivo))
     = errores imp @ errores (snd (importar_excel env importador_nuevo archivo))
   \<and> fst (importar_excel env imp archivo) = fst (importar_excel env importador_nuevo archivo)"
proof (cases "EXCEL_SUPPORT env")
  case False
  then show ?thesis by (simp add: importar_excel_def importador_nuevo_def)
next
  case True
  show ?thesis
  proof (cases "leer_hoja env archivo")
    case (Inl e)
    then show ?thesis using True by (simp add: importar_excel_def importador_nuevo_def)
  next
    case (Inr hoja)
    obtain fila1 rows where h: "hoja = (fila1, rows)" by (cases hoja)
    define headers where
      "headers = map (\<lambda>v. if py_truthy v then py_lower (py_str v) else []) fila1"
    define cols where "cols =
                   (encontrar_columna headers [''fecha'', ''date'', ''f''],
                    encontrar_columna headers
                      [''descripcion'', ''concepto'', ''description'', ''detalle''],
                    encontrar_columna headers
                      [''cargo'', ''debito'', ''debit'', ''egreso'', ''retiro''],
                    encontrar_columna headers
                      [''abono'', ''credito'', ''credit'', ''ingreso'', ''deposito''],
                    encontrar_columna headers [''saldo'', ''balance''],
                    encontrar_columna headers [''referencia'', ''ref'', ''numero'', ''folio''])"
    obtain es where es:
      "\<And>txs imp.
         snd (filas_excel_bucle cols rows txs imp) = imp\<lparr>errores := errores imp @ es\<rparr>"
      using filas_excel_bucle_errores [of cols rows] by blast
    have t: "fst (filas_excel_bucle cols rows [] imp)
        = fst (filas_excel_bucle cols rows [] importador_nuevo)"
      by (rule filas_excel_bucle_txs)
    obtain txs i1 where b1: "filas_excel_bucle cols rows [] imp = (txs, i1)"
      by (cases "filas_excel_bucle cols rows [] imp")
    obtain txs' i2 where b2: "filas_excel_bucle cols rows [] importador_nuevo = (txs', i2)"
      by (cases "filas_excel_bucle cols rows [] importador_nuevo")
    from t b1 b2 have tt: "txs' = txs" by simp
    from es [of "[]" imp] b1 have e1: "i1 = imp\<lparr>errores := errores imp @ es\<rparr>" by simp
    from es [of "[]" importador_nuevo] b2 have e2: "i2 = importador_nuevo\<lparr>errores := es\<rparr>"
      by (simp add: importador_nuevo_def)
    show ?thesis
      using True b1 b2
      by (simp add: importar_excel_def Inr h Let_def headers_def [symmetric]
          cols_def [symmetric] tt e1 e2)
  qed
qed

lemma importar_pdf_errores:
  "errores (snd (importar_pdf env imp archivo nombre))
     = errores imp @ errores (snd (importar_pdf env importador_nuevo archivo nombre))
   \<and> fst (importar_pdf env imp archivo nombre)
     = fst (importar_pdf env importador_nuevo archivo nombre)"
  by (auto simp: importar_pdf_def importador_nuevo_def Let_def split: sum.splits)

text \<open>
  Claim C3, as amended. The list of diagnostics belongs to the importer object and is
  never reset: it is created empty with the object, and a call of \<open>importar\<close> appends
  its own error strings, in order, to the strings already there. The error strings of
  a call are those that the call leaves on a new importer; the statement that a call
  returns does not depend on the earlier calls. So only on a new importer do the
  diagnostics after a call hold exactly the strings of that call.
\<close>

theorem errores_se_acumulan:
  "errores (snd (importar env imp archivo tipo nombre))
     = errores imp @ errores (snd (importar env importador_nuevo archivo tipo nombre))
   \<and> fst (importar env imp archivo tipo nombre)
     = fst (importar env importador_nuevo archivo tipo nombre)
   \<and> errores importador_nuevo = []"
  using importar_csv_errores [of env imp archivo] importar_excel_errores [of env imp archivo]
    importar_pdf_errores [of env imp archivo nombre]
  by (simp add: importar_def Let_def importador_nuevo_def)

lemma importar_csv_sobrante:
  "errores (snd (importar entorno_ejemplo importador_nuevo [] ''csv'' []))
     = [''Error parseando fila: '' @ mensaje (error_none ''lower'')]"
  by (simp add: importar_def importar_csv_def entorno_ejemplo_def
      fila_sobrante_def importador_nuevo_def parsear_fila_csv_def error_none_def ligar_def
      py_lower_def lower_char_def es_mayuscula_def ord_def Let_def)

theorem errores_se_acumulan_witness:
  "errores (snd (importar entorno_ejemplo
       (snd (importar entorno_ejemplo importador_nuevo [] ''csv'' [])) [] ''csv'' []))
     = [''Error parseando fila: '' @ mensaje (error_none ''lower''),
        ''Error parseando fila: '' @ mensaje (error_none ''lower'')]"
  using errores_se_acumulan [of entorno_ejemplo
      "snd (importar entorno_ejemplo importador_nuevo [] ''csv'' [])" "[]" "''csv''" "[]"]
    importar_csv_sobrante
  by simp

text \<open>
  The claim as written fails: a first call reads a CSV file with one bad row, a second
  call on the same importer reads a PDF without any error of its own, and the
  diagnostics after the second call still hold the string of the first.
\<close>

theorem errores_no_se_reinician_counterexample:
  "errores (snd (importar entorno_ejemplo
       (snd (importar entorno_ejemplo importador_nuevo [] ''csv'' [])) [] ''pdf'' []))
     = [''Error parseando fila: '' @ mensaje (error_none ''lower'')]
   \<and> errores (snd (importar entorno_ejemplo importador_nuevo [] ''pdf'' [])) = []"
  by (simp add: importar_def importar_csv_def importar_pdf_def entorno_ejemplo_def
      fila_sobrante_def importador_nuevo_def parsear_fila_csv_def error_none_def ligar_def
      py_lower_def lower_char_def es_mayuscula_def ord_def Let_def)

subsection \<open>The choice of the adapter\<close>

text \<open>
  An exception that leaves \<open>_construir_estado_cuenta\<close> comes from the decimal
  arithmetic, and none of the adapters raises the error of an unsupported type.
\<close>

lemma dec_fix_Inl: "dec_fix r = Inl e \<Longrightarrow> e = overflow"
  by (auto simp: dec_fix_def Let_def split: if_splits)

lemma dec_add_Inl: "dec_add a b = Inl e \<Longrightarrow> e = invalid_operation \<or> e = overflow"
  by (cases a; cases b) (auto split: if_splits dest: dec_fix_Inl)

lemma dec_sub_Inl: "dec_sub a b = Inl e \<Longrightarrow> e = invalid_operation \<or> e = overflow"
  unfolding dec_sub_def by (rule dec_add_Inl)

lemma dec_sum_desde_Inl:
  "dec_sum_desde acc ds = Inl e \<Longrightarrow> e = invalid_operation \<or> e = overflow"
  by (induction ds arbitrary: acc) (auto split: sum.splits dest: dec_add_Inl)

lemma dec_sum_Inl: "dec_sum ds = Inl e \<Longrightarrow> e = invalid_operation \<or> e = overflow"
  unfolding dec_sum_def by (rule dec_sum_desde_Inl)

lemma saldo_or_Inl: "saldo_or x y = Inl e \<Longrightarrow> y = Inl e"
  by (auto simp: saldo_or_def split: option.splits if_splits)

lemma construir_Inl:
  assumes "construir_estado_cuenta env b c txs texto = Inl e"
  shows "e = invalid_operation \<or> e = overflow"
proof (cases "txs = []")
  case True
  with assms show ?thesis by (simp add: construir_estado_cuenta_def)
next
  case False
  with assms show ?thesis
    unfolding construir_estado_cuenta_def Let_def ligar_def
    by (auto split: sum.splits option.splits
        dest: dec_sum_Inl dec_add_Inl dec_sub_Inl dest!: saldo_or_Inl)
qed

lemma error_tipo_distinto:
  "error_tipo t \<noteq> invalid_operation"
  "error_tipo t \<noteq> overflow"
  "error_tipo t \<noteq> Exc ImportError m"
  "invalid_operation \<noteq> error_tipo t"
  "overflow \<noteq> error_tipo t"
  "Exc ImportError m \<noteq> error_tipo t"
  by (simp_all add: error_tipo_def invalid_operation_def overflow_def)

lemma importar_pdf_ajeno:
  "lectores_ajenos env \<Longrightarrow> fst (importar_pdf env imp archivo nombre) \<noteq> Inl (error_tipo t)"
  by (auto simp: importar_pdf_def lectores_ajenos_def Let_def error_tipo_distinto
      split: sum.splits dest!: construir_Inl)

lemma importar_csv_ajeno:
  "lectores_ajenos env \<Longrightarrow> fst (importar_csv env imp archivo) \<noteq> Inl (error_tipo t)"
  by (auto simp: importar_csv_def lectores_ajenos_def Let_def error_tipo_distinto
      split: sum.splits prod.splits option.splits dest!: construir_Inl)
     (metis snd_conv)

lemma importar_excel_ajeno:
  "lectores_ajenos env \<Longrightarrow> fst (importar_excel env imp archivo) \<noteq> Inl (error_tipo t)"
  by (auto simp: importar_excel_def lectores_ajenos_def Let_def error_tipo_distinto
      split: sum.splits prod.splits dest!: construir_Inl)

text \<open>
  Claim C4, as amended. Provided that no reader of a library raises that same error,
  \<open>importar\<close> raises the \<open>ValueError\<close> of an unsupported type exactly when the
  lower-cased \<open>tipo_archivo\<close> is none of \<open>pdf\<close>, \<open>csv\<close>, \<open>excel\<close>, \<open>xlsx\<close>,
  \<open>xls\<close>. It raises it before any parsing: the result does not depend on the file or
  on the readers, and the importer is unchanged. For a supported type the call is the
  call of the adapter: the PDF adapter for \<open>pdf\<close>, the CSV adapter for \<open>csv\<close>, the
  Excel adapter for \<open>excel\<close>, \<open>xlsx\<close> and \<open>xls\<close>.
\<close>

theorem importar_seleccion:
  "lectores_ajenos env \<Longrightarrow>
     ((fst (importar env imp archivo tipo nombre) = Inl (error_tipo tipo))
        = (py_lower tipo \<notin> set [''pdf'', ''csv'', ''excel'', ''xlsx'', ''xls'']))
     \<and> (py_lower tipo \<notin> set [''pdf'', ''csv'', ''excel'', ''xlsx'', ''xls''] \<longrightarrow>
          importar env imp archivo tipo nombre = (Inl (error_tipo tipo), imp))
     \<and> (py_lower tipo = ''pdf'' \<longrightarrow>
          importar env imp archivo tipo nombre = importar_pdf env imp archivo nombre)
     \<and> (py_lower tipo = ''csv'' \<longrightarrow>
          importar env imp archivo tipo nombre = importar_csv env imp archivo)
     \<and> (py_lower tipo \<in> set [''excel'', ''xlsx'', ''xls''] \<longrightarrow>
          importar env imp archivo tipo nombre = importar_excel env imp archivo)"
proof -
  assume l: "lectores_ajenos env"
  have d: "importar env imp archivo tipo nombre =
     (if py_lower tipo = ''pdf'' then importar_pdf env imp archivo nombre
      else if py_lower tipo = ''csv'' then importar_csv env imp archivo
      else if py_lower tipo \<in> set [''excel'', ''xlsx'', ''xls'']
        then importar_excel env imp archivo
      else (Inl (error_tipo tipo), imp))"
    by (simp add: importar_def Let_def error_tipo_def)
  have "(fst (importar env imp archivo tipo nombre) = Inl (error_tipo tipo))
        = (py_lower tipo \<notin> set [''pdf'', ''csv'', ''excel'', ''xlsx'', ''xls''])"
    using importar_pdf_ajeno [OF l, of imp archivo nombre tipo]
      importar_csv_ajeno [OF l, of imp archivo tipo]
      importar_excel_ajeno [OF l, of imp archivo tipo]
    by (auto simp: d)
  moreover have "py_lower tipo \<notin> set [''pdf'', ''csv'', ''excel'', ''xlsx'', ''xls''] \<longrightarrow>
          importar env imp archivo tipo nombre = (Inl (error_tipo tipo), imp)"
    by (auto simp: d)
  moreover have "py_lower tipo = ''pdf'' \<longrightarrow>
          importar env imp archivo tipo nombre = importar_pdf env imp archivo nombre"
    by (simp add: d)
  moreover have "py_lower tipo = ''csv'' \<longrightarrow>
          importar env imp archivo tipo nombre = importar_csv env imp archivo"
    by (simp add: d)
  moreover have "py_lower tipo \<in> set [''excel'', ''xlsx'', ''xls''] \<longrightarrow>
          importar env imp archivo tipo nombre = importar_excel env imp archivo"
    by (auto simp: d)
  ultimately show ?thesis by blast
qed

lemma lectores_ajenos_ejemplo: "lectores_ajenos entorno_ejemplo"
  by (simp add: lectores_ajenos_def entorno_ejemplo_def)

theorem importar_seleccion_witness:
  "lectores_ajenos entorno_ejemplo
   \<and> importar entorno_ejemplo importador_nuevo [] ''txt'' [] =
       (Inl (Exc ValueError ''Tipo de archivo no soportado: txt''), importador_nuevo)
   \<and> fst (importar entorno_ejemplo importador_nuevo [] ''csv'' []) \<noteq> Inl (error_tipo ''csv'')"
proof -
  have t: "py_lower ''txt'' \<notin> set [''pdf'', ''csv'', ''excel'', ''xlsx'', ''xls'']"
    by (simp add: py_lower_def lower_char_def es_mayuscula_def ord_def Let_def)
  have c: "py_lower ''csv'' \<in> set [''pdf'', ''csv'', ''excel'', ''xlsx'', ''xls'']"
    by (simp add: py_lower_def lower_char_def es_mayuscula_def ord_def Let_def)
  from importar_seleccion [OF lectores_ajenos_ejemplo, of importador_nuevo "[]" "''txt''" "[]"] t
  have 1: "importar entorno_ejemplo importador_nuevo [] ''txt'' [] =
       (Inl (error_tipo ''txt''), importador_nuevo)" by blast
  from importar_seleccion [OF lectores_ajenos_ejemplo, of importador_nuevo "[]" "''csv''" "[]"] c
  have 2: "fst (importar entorno_ejemplo importador_nuevo [] ''csv'' []) \<noteq> Inl (error_tipo ''csv'')"
    by blast
  from 1 2 lectores_ajenos_ejemplo show ?thesis by (simp add: error_tipo_def)
qed

text \<open>
  The claim as written fails: the types \<open>xlsx\<close> and \<open>PDF\<close> are not among
  \<open>pdf\<close>, \<open>csv\<close>, \<open>excel\<close>, and each selects an adapter that returns a statement.
\<close>

theorem importar_xlsx_counterexample:
  "importar entorno_ejemplo importador_nuevo [] ''xlsx'' [] =
     (Inr \<lparr>banco = ''EXCEL'', cuenta = [], moneda = ''MXN'', fecha_inicio = (2026, 1, 1),
           fecha_fin = (2026, 1, 1), saldo_inicial = Fin 0, saldo_final = Fin 0,
           transacciones = [], total_cargos = Fin 0, total_abonos = Fin 0\<rparr>, importador_nuevo)
   \<and> importar entorno_ejemplo importador_nuevo [] ''PDF'' [] =
     importar_pdf entorno_ejemplo importador_nuevo [] []"
  by (simp add: importar_def importar_excel_def entorno_ejemplo_def construir_estado_cuenta_def
      py_lower_def lower_char_def es_mayuscula_def ord_def Let_def)

subsection \<open>The balances of a statement\<close>

text \<open>
  What \<open>_construir_estado_cuenta\<close> returns for a list that is not empty: the sorted
  list, its sums, and each balance from the text when the text has it, else from the
  first or last transaction when that balance is reported and is not zero, else 0 for
  the opening balance and \<open>saldo_inicial + total_abonos - total_cargos\<close> for the
  closing balance.
\<close>

lemma construir_saldos:
  assumes "txs \<noteq> []" and "construir_estado_cuenta env b c txs texto = Inr e"
  shows "saldo_inicial e =
           (case extraer_saldo_inicial texto of
              Some v \<Rightarrow> v
            | None \<Rightarrow> (case saldo (hd (sort_key fecha txs)) of
                         Some d \<Rightarrow> if dec_bool d then d else Fin 0
                       | None \<Rightarrow> Fin 0))"
    and "Inr (saldo_final e) =
           (case extraer_saldo_final texto of
              Some v \<Rightarrow> Inr v
            | None \<Rightarrow> (case saldo (last (sort_key fecha txs)) of
                         Some d \<Rightarrow> if dec_bool d then Inr d
                                   else ligar (dec_add (saldo_inicial e) (total_abonos e))
                                          (\<lambda>x. dec_sub x (total_cargos e))
                       | None \<Rightarrow> ligar (dec_add (saldo_inicial e) (total_abonos e))
                                   (\<lambda>x. dec_sub x (total_cargos e))))"
    and "transacciones e = sort_key fecha txs"
    and "dec_sum (map cargo (sort_key fecha txs)) = Inr (total_cargos e)"
    and "dec_sum (map abono (sort_key fecha txs)) = Inr (total_abonos e)"
  using assms
  unfolding construir_estado_cuenta_def Let_def
  by (auto simp: ligar_def saldo_or_def split: sum.splits option.splits if_splits)

lemma filas_saldo_cero_parseadas:
  "map parsear_fila_csv filas_saldo_cero =
     [Inr (Some (transaccion (2024, 3, 1) ''Deposito'' [] (Fin 0) (Fin 100) (Some (Fin 100))
                   [] ''otros'' None)),
      Inr (Some (transaccion (2024, 3, 2) ''Retiro'' [] (Fin 100) (Fin 0) (Some (Fin 0))
                   [] ''otros'' None))]"
  by (simp add: filas_saldo_cero_def ev_csv ev_cadenas ev_regex ev_decimal ev_fechas
      ev_categorias)

lemma texto_saldo_cero_sin_saldos:
  "extraer_saldo_inicial texto_saldo_cero = None"
  "extraer_saldo_final texto_saldo_cero = None"
  by (simp_all add: texto_saldo_cero_def ev_saldos ev_cadenas ev_regex)

lemma saldo_al_inicio_no_se_extrae:
  "extraer_saldo_inicial ''Saldo al inicio: $1,000.00'' = None"
  "extraer_saldo_final ''Saldo al corte: $1,300.00'' = None"
  by (simp_all add: ev_saldos ev_cadenas ev_regex ev_decimal)

lemma saldo_anterior_se_extrae:
  "extraer_saldo_inicial ''Saldo anterior: $1,000.00'' = Some (Fin 1000)"
  "extraer_saldo_final ''Saldo final: $1,300.00'' = Some (Fin 1300)"
  by (simp_all add: ev_saldos ev_cadenas ev_regex ev_decimal)

text \<open>
  Claim C5, at the input where the code departs from it. The CSV file has no balance
  label in its text and reports the balances 100.00 and 0.00 after its two
  transactions (credits 100, charges 100). The opening balance is the first reported
  balance, 100; the closing balance is not the last reported balance 0 but
  \<open>100 + 100 - 100 = 100\<close>, because \<open>or\<close> treats the decimal zero like \<open>None\<close>.
  The labels \<open>saldo al inicio\<close> and \<open>saldo al corte\<close> are never extracted either:
  their patterns have one group and the code reads group 2.
\<close>

theorem saldo_final_cero_se_calcula:
  "map_sum id (\<lambda>e. (saldo_inicial e, total_abonos e, total_cargos e,
                map saldo (transacciones e), saldo_final e))
       (fst (importar entorno_saldo_cero importador_nuevo [] ''csv'' []))
     = Inr (Fin 100, Fin 100, Fin 100, [Some (Fin 100), Some (Fin 0)], Fin 100)
   \<and> extraer_saldo_inicial ''Saldo al inicio: $1,000.00'' = None
   \<and> extraer_saldo_final ''Saldo al corte: $1,300.00'' = None"
proof (intro conjI)
  have f: "filas_csv_bucle filas_saldo_cero [] importador_nuevo =
      ([transaccion (2024, 3, 1) ''Deposito'' [] (Fin 0) (Fin 100) (Some (Fin 100)) []
          ''otros'' None,
        transaccion (2024, 3, 2) ''Retiro'' [] (Fin 100) (Fin 0) (Some (Fin 0)) []
          ''otros'' None],
       importador_nuevo)"
    using filas_saldo_cero_parseadas by (simp add: filas_saldo_cero_def)
  show "map_sum id (\<lambda>e. (saldo_inicial e, total_abonos e, total_cargos e,
                map saldo (transacciones e), saldo_final e))
       (fst (importar entorno_saldo_cero importador_nuevo [] ''csv'' []))
     = Inr (Fin 100, Fin 100, Fin 100, [Some (Fin 100), Some (Fin 0)], Fin 100)"
    by (simp add: importar_def importar_csv_def entorno_saldo_cero_def f
        texto_saldo_cero_sin_saldos construir_estado_cuenta_def saldo_or_def transaccion_def
        dec_sum_def ligar_def dec_sub_def py_lower_def lower_char_def es_mayuscula_def ord_def
        ev_redondeo)
qed (rule saldo_al_inicio_no_se_extrae)+

subsection \<open>The amount parser\<close>

lemma ord_digito: "d < 10 \<Longrightarrow> ord (digito d) = 48 + d"
proof -
  assume "d < 10"
  then consider "d = 0" | "d = 1" | "d = 2" | "d = 3" | "d = 4" | "d = 5" | "d = 6" | "d = 7"
    | "d = 8" | "d = 9" by atomize_elim arith
  then show ?thesis by cases (simp_all add: digito_def ord_def)
qed

lemma es_digito_digito: "d < 10 \<Longrightarrow> es_digito (digito d)"
  by (simp add: es_digito_def ord_digito)

lemma str_nat_digitos: "list_all es_digito (str_nat n) \<and> str_nat n \<noteq> []"
proof (induction n rule: str_nat.induct)
  case (1 n)
  show ?case
  proof (cases "n < 10")
    case True
    then show ?thesis by (subst str_nat.simps, subst str_nat.simps) (simp add: es_digito_digito)
  next
    case False
    with 1 show ?thesis
      by (subst str_nat.simps, subst str_nat.simps) (simp add: es_digito_digito)
  qed
qed

lemma valor_digitos_snoc: "valor_digitos (s @ [c]) = 10 * valor_digitos s + (ord c - 48)"
  by (simp add: valor_digitos_def)

lemma valor_digitos_str_nat: "valor_digitos (str_nat n) = n"
proof (induction n rule: str_nat.induct)
  case (1 n)
  show ?case
  proof (cases "n < 10")
    case True
    then show ?thesis
      by (subst str_nat.simps) (simp add: valor_digitos_def ord_digito)
  next
    case False
    with 1 have "valor_digitos (str_nat (n div 10)) = n div 10" by simp
    with False show ?thesis
      by (subst str_nat.simps) (simp add: valor_digitos_snoc ord_digito)
  qed
qed

lemma digito_no_espacio: "es_digito c \<Longrightarrow> \<not> es_espacio c"
  by (auto simp: es_digito_def es_espacio_def Let_def)

lemma digito_no_mayuscula: "es_digito c \<Longrightarrow> lower_char c = c"
  by (auto simp: es_digito_def lower_char_def es_mayuscula_def Let_def)

lemma digito_chars:
  "es_digito c \<Longrightarrow> c \<noteq> CHR ''_'' \<and> c \<noteq> CHR ''-'' \<and> c \<noteq> CHR ''+''
     \<and> c \<noteq> CHR ''i'' \<and> c \<noteq> CHR ''n'' \<and> c \<noteq> CHR ''s''"
  by (auto simp: es_digito_def ord_def)

text \<open>\<open>Decimal\<close> of a string of digits, with or without a minus sign, is its number.\<close>

lemma py_Decimal_digitos:
  assumes d: "list_all es_digito ds" and ne: "ds \<noteq> []"
  shows "py_Decimal ds = Inr (Fin (of_nat (valor_digitos ds)))"
    and "py_Decimal (CHR ''-'' # ds) = Inr (Fin (- of_nat (valor_digitos ds)))"
proof -
  obtain c cs where c: "ds = c # cs" using ne by (cases ds) auto
  with d have dc: "es_digito c" by simp
  have last: "es_digito (last ds)" using d ne by (simp add: list_all_iff)
  have strip: "py_strip ds = ds"
  proof -
    have "dropWhile es_espacio ds = ds" using c dc digito_no_espacio by simp
    moreover have "dropWhile es_espacio (rev ds) = rev ds"
      using last ne digito_no_espacio by (cases "rev ds") (auto simp: last_rev hd_rev [symmetric])
    ultimately show ?thesis by (simp add: py_strip_def)
  qed
  have quitar: "py_quitar (CHR ''_'') ds = ds"
    using d digito_chars by (auto simp: py_quitar_def list_all_iff filter_id_conv)
  have lower: "py_lower ds = ds"
    using d digito_no_mayuscula by (auto simp: py_lower_def list_all_iff map_idI)
  have tw: "takeWhile es_digito ds = ds" "dropWhile es_digito ds = []"
    using d by (auto simp: list_all_iff)
  have noinf: "ds \<noteq> ''inf''" "ds \<noteq> ''infinity''" "\<not> empieza_con ''nan'' ds"
    "\<not> empieza_con ''snan'' ds"
    using c dc digito_chars by auto
  have sg: "signo_y_resto ds = (False, ds)"
    using c dc digito_chars by (simp add: signo_y_resto_def)
  show "py_Decimal ds = Inr (Fin (of_nat (valor_digitos ds)))"
    using ne by (simp add: py_Decimal_def strip quitar sg lower noinf tw exponente_def pot10_def)
  have strip': "py_strip (CHR ''-'' # ds) = CHR ''-'' # ds"
  proof -
    have "dropWhile es_espacio (rev (CHR ''-'' # ds)) = rev (CHR ''-'' # ds)"
      using last ne digito_no_espacio by (cases "rev ds") (auto simp: last_rev hd_rev [symmetric])
    then show ?thesis by (simp add: py_strip_def es_espacio_def ord_def)
  qed
  show "py_Decimal (CHR ''-'' # ds) = Inr (Fin (- of_nat (valor_digitos ds)))"
    using ne by (simp add: py_Decimal_def strip' py_quitar_def quitar [unfolded py_quitar_def]
        signo_y_resto_def lower noinf tw exponente_def pot10_def)
qed

lemma py_Decimal_str_int: "py_Decimal (str_int n) = Inr (Fin (of_int n))"
proof (cases "n < 0")
  case True
  then have "of_nat (nat (- n)) = - (of_int n :: rat)" by simp
  with True show ?thesis
    using py_Decimal_digitos(2) [of "str_nat (nat (- n))"] str_nat_digitos [of "nat (- n)"]
    by (simp add: str_int_def valor_digitos_str_nat)
next
  case False
  then have "of_nat (nat n) = (of_int n :: rat)" by simp
  with False show ?thesis
    using py_Decimal_digitos(1) [of "str_nat (nat n)"] str_nat_digitos [of "nat n"]
    by (simp add: str_int_def valor_digitos_str_nat)
qed

lemma py_Decimal_Inl: "py_Decimal s = Inl e \<Longrightarrow> e = conversion_syntax"
  by (auto simp: py_Decimal_def Let_def split: prod.splits if_splits option.splits)

lemma parsear_monto_PInt: "parsear_monto (PInt n) = Inr (Fin (of_int n))"
  by (simp add: parsear_monto_def py_Decimal_str_int)

lemma parsear_monto_PBool: "parsear_monto (PBool b) = Inl conversion_syntax"
  by (cases b) (simp_all add: parsear_monto_def py_Decimal_def py_strip_def es_espacio_def
      ord_def py_quitar_def signo_y_resto_def py_lower_def lower_char_def es_mayuscula_def
      es_digito_def Let_def)

lemma monto_lanza_solo_bool:
  "(\<exists>e. parsear_monto v = Inl e) \<longleftrightarrow> (\<exists>b. v = PBool b)"
proof
  assume "\<exists>e. parsear_monto v = Inl e"
  then obtain e where e: "parsear_monto v = Inl e" by blast
  show "\<exists>b. v = PBool b"
  proof (cases v)
    case (PInt n)
    with e show ?thesis by (simp add: parsear_monto_PInt)
  next
    case (PBool b)
    then show ?thesis by simp
  qed (insert e, auto simp: parsear_monto_def Let_def conversion_syntax_def
      split: sum.splits if_splits dest!: py_Decimal_Inl)
next
  assume "\<exists>b. v = PBool b"
  then show "\<exists>e. parsear_monto v = Inl e" by (auto simp: parsear_monto_PBool)
qed

text \<open>
  Claim C6, with the input where the code departs from it. \<open>_parsear_monto\<close> returns
  an \<open>int\<close> as the exact decimal, \<open>$1,234.56\<close> and \<open>1234.56\<close> as 1234.56, \<open>(500.00)\<close>
  as -500, and the empty string, \<open>None\<close> and \<open>not-a-number\<close> as 0. It does raise,
  on a \<open>bool\<close> and on nothing else: \<open>True\<close> passes the test
  \<open>isinstance(valor, (int, float))\<close>, and \<open>Decimal("True")\<close> raises \<open>InvalidOperation\<close>
  outside the \<open>try\<close>.
\<close>

theorem parsear_monto_lanza:
  "((\<exists>e. parsear_monto v = Inl e) \<longleftrightarrow> (\<exists>b. v = PBool b))
   \<and> parsear_monto (PBool True) = Inl conversion_syntax
   \<and> parsear_monto (PInt n) = Inr (Fin (of_int n))
   \<and> parsear_monto (PStr ''$1,234.56'') = Inr (Fin (123456 / 100))
   \<and> parsear_monto (PStr ''1234.56'') = Inr (Fin (123456 / 100))
   \<and> parsear_monto (PStr ''(500.00)'') = Inr (Fin (- 500))
   \<and> parsear_monto (PStr []) = Inr (Fin 0)
   \<and> parsear_monto PNone = Inr (Fin 0)
   \<and> parsear_monto (PStr ''not-a-number'') = Inr (Fin 0)"
proof (intro conjI)
  show "(\<exists>e. parsear_monto v = Inl e) \<longleftrightarrow> (\<exists>b. v = PBool b)"
    by (rule monto_lanza_solo_bool)
  show "parsear_monto (PBool True) = Inl conversion_syntax"
    by (rule parsear_monto_PBool)
  show "parsear_monto (PInt n) = Inr (Fin (of_int n))"
    by (rule parsear_monto_PInt)
qed (simp_all add: parsear_monto_def ev_cadenas ev_decimal)

subsection \<open>The date parser\<close>

lemma strptime_ValueError: "strptime s fmt = Inl e \<Longrightarrow> clase e = ValueError"
  by (auto simp: strptime_def error_fecha_def Let_def split: option.splits if_splits)

text \<open>
  The loop over the formats returns the date of the first format that reads the text.
\<close>

lemma primer_formato_Some:
  "primer_formato fmts s = Inr (Some f) \<longleftrightarrow>
     (\<exists>i<length fmts. strptime s (fmts ! i) = Inr f
        \<and> (\<forall>j<i. \<exists>e. strptime s (fmts ! j) = Inl e))"
proof (induction fmts)
  case Nil
  then show ?case by simp
next
  case (Cons fmt fmts)
  show ?case
  proof (cases "strptime s fmt")
    case (Inr f')
    show ?thesis
    proof
      assume "primer_formato (fmt # fmts) s = Inr (Some f)"
      with Inr have "f' = f" by simp
      with Inr show "\<exists>i<length (fmt # fmts). strptime s ((fmt # fmts) ! i) = Inr f
        \<and> (\<forall>j<i. \<exists>e. strptime s ((fmt # fmts) ! j) = Inl e)"
        by (intro exI [of _ 0]) simp
    next
      assume "\<exists>i<length (fmt # fmts). strptime s ((fmt # fmts) ! i) = Inr f
        \<and> (\<forall>j<i. \<exists>e. strptime s ((fmt # fmts) ! j) = Inl e)"
      then obtain i where i: "i < length (fmt # fmts)" "strptime s ((fmt # fmts) ! i) = Inr f"
        "\<forall>j<i. \<exists>e. strptime s ((fmt # fmts) ! j) = Inl e" by blast
      have "i = 0"
      proof (rule ccontr)
        assume "i \<noteq> 0"
        then have "0 < i" by simp
        with i(3) obtain e where "strptime s ((fmt # fmts) ! 0) = Inl e" by blast
        with Inr show False by simp
      qed
      with i Inr show "primer_formato (fmt # fmts) s = Inr (Some f)" by simp
    qed
  next
    case (Inl e)
    then have v: "clase e = ValueError" by (rule strptime_ValueError)
    have "(\<exists>i<length (fmt # fmts). strptime s ((fmt # fmts) ! i) = Inr f
        \<and> (\<forall>j<i. \<exists>e. strptime s ((fmt # fmts) ! j) = Inl e))
      \<longleftrightarrow> (\<exists>i<length fmts. strptime s (fmts ! i) = Inr f
        \<and> (\<forall>j<i. \<exists>e. strptime s (fmts ! j) = Inl e))" (is "?L \<longleftrightarrow> ?R")
    proof
      assume ?L
      then obtain i where i: "i < length (fmt # fmts)" "strptime s ((fmt # fmts) ! i) = Inr f"
        "\<forall>j<i. \<exists>e. strptime s ((fmt # fmts) ! j) = Inl e" by blast
      from i(2) Inl obtain k where k: "i = Suc k" by (cases i) auto
      have "\<forall>j<k. \<exists>e. strptime s (fmts ! j) = Inl e"
      proof (intro allI impI)
        fix j assume "j < k"
        then have "Suc j < i" using k by simp
        with i(3) have "\<exists>e. strptime s ((fmt # fmts) ! Suc j) = Inl e" by blast
        then show "\<exists>e. strptime s (fmts ! j) = Inl e" by simp
      qed
      with i k show ?R by (intro exI [of _ k]) simp
    next
      assume ?R
      then obtain i where i: "i < length fmts" "strptime s (fmts ! i) = Inr f"
        "\<forall>j<i. \<exists>e. strptime s (fmts ! j) = Inl e" by blast
      have "\<forall>j<Suc i. \<exists>e. strptime s ((fmt # fmts) ! j) = Inl e"
      proof (intro allI impI)
        fix j assume "j < Suc i"
        then show "\<exists>e. strptime s ((fmt # fmts) ! j) = Inl e"
          using Inl i(3) by (cases j) auto
      qed
      with i show ?L by (intro exI [of _ "Suc i"]) simp
    qed
    with Inl v Cons.IH show ?thesis by simp
  qed
qed

lemma primer_formato_None:
  "primer_formato fmts s = Inr None \<longleftrightarrow> (\<forall>fmt\<in>set fmts. \<exists>e. strptime s fmt = Inl e)"
proof (induction fmts)
  case Nil
  then show ?case by simp
next
  case (Cons fmt fmts)
  then show ?case
    by (cases "strptime s fmt") (auto dest: strptime_ValueError)
qed

lemma primer_formato_no_lanza: "\<exists>r. primer_formato fmts s = Inr r"
proof (induction fmts)
  case Nil
  then show ?case by simp
next
  case (Cons fmt fmts)
  then show ?case
    by (cases "strptime s fmt") (auto dest: strptime_ValueError)
qed

lemma parsear_fecha_PStr:
  "parsear_fecha (PStr s) =
     (if py_strip s = [] then Inr None else primer_formato formatos (py_strip s))"
  by (auto simp: parsear_fecha_def py_strip_def)

text \<open>
  Claim C7. On a text, \<open>_parsear_fecha\<close> never raises. It returns a date exactly when
  the stripped text is not empty and the date is the result of the first format, in the
  order \<open>%d/%m/%Y\<close>, \<open>%d-%m-%Y\<close>, \<open>%Y/%m/%d\<close>, \<open>%Y-%m-%d\<close>, \<open>%d/%m/%y\<close>,
  \<open>%m/%d/%Y\<close>, \<open>%Y%m%d\<close>, that reads the text; it returns \<open>None\<close> exactly when the
  stripped text is empty or every format fails. \<open>03/04/2024\<close> is read day first, as
  3 April 2024, although the month-first format reads it too.
\<close>

theorem parsear_fecha_formatos:
  "(\<exists>r. parsear_fecha (PStr s) = Inr r)
   \<and> (parsear_fecha (PStr s) = Inr (Some f) \<longleftrightarrow>
        py_strip s \<noteq> []
        \<and> (\<exists>i<length formatos. strptime (py_strip s) (formatos ! i) = Inr f
              \<and> (\<forall>j<i. \<exists>e. strptime (py_strip s) (formatos ! j) = Inl e)))
   \<and> (parsear_fecha (PStr s) = Inr None \<longleftrightarrow>
        py_strip s = [] \<or> (\<forall>fmt\<in>set formatos. \<exists>e. strptime (py_strip s) fmt = Inl e))
   \<and> formatos =
       [[Dir_d, Literal (CHR ''/''), Dir_m, Literal (CHR ''/''), Dir_Y],
        [Dir_d, Literal (CHR ''-''), Dir_m, Literal (CHR ''-''), Dir_Y],
        [Dir_Y, Literal (CHR ''/''), Dir_m, Literal (CHR ''/''), Dir_d],
        [Dir_Y, Literal (CHR ''-''), Dir_m, Literal (CHR ''-''), Dir_d],
        [Dir_d, Literal (CHR ''/''), Dir_m, Literal (CHR ''/''), Dir_y],
        [Dir_m, Literal (CHR ''/''), Dir_d, Literal (CHR ''/''), Dir_Y],
        [Dir_Y, Dir_m, Dir_d]]
   \<and> parsear_fecha (PStr ''03/04/2024'') = Inr (Some (2024, 4, 3))
   \<and> strptime ''03/04/2024'' (formatos ! 5) = Inr (2024, 3, 4)
   \<and> parsear_fecha (PStr []) = Inr None"
proof (intro conjI)
  show "\<exists>r. parsear_fecha (PStr s) = Inr r"
    using primer_formato_no_lanza [of formatos "py_strip s"] by (simp add: parsear_fecha_PStr)
  show "parsear_fecha (PStr s) = Inr (Some f) \<longleftrightarrow>
        py_strip s \<noteq> []
        \<and> (\<exists>i<length formatos. strptime (py_strip s) (formatos ! i) = Inr f
              \<and> (\<forall>j<i. \<exists>e. strptime (py_strip s) (formatos ! j) = Inl e))"
    by (simp add: parsear_fecha_PStr primer_formato_Some)
  show "parsear_fecha (PStr s) = Inr None \<longleftrightarrow>
        py_strip s = [] \<or> (\<forall>fmt\<in>set formatos. \<exists>e. strptime (py_strip s) fmt = Inl e)"
    by (simp add: parsear_fecha_PStr primer_formato_None)
  show "formatos =
       [[Dir_d, Literal (CHR ''/''), Dir_m, Literal (CHR ''/''), Dir_Y],
        [Dir_d, Literal (CHR ''-''), Dir_m, Literal (CHR ''-''), Dir_Y],
        [Dir_Y, Literal (CHR ''/''), Dir_m, Literal (CHR ''/''), Dir_d],
        [Dir_Y, Literal (CHR ''-''), Dir_m, Literal (CHR ''-''), Dir_d],
        [Dir_d, Literal (CHR ''/''), Dir_m, Literal (CHR ''/''), Dir_y],
        [Dir_m, Literal (CHR ''/''), Dir_d, Literal (CHR ''/''), Dir_Y],
        [Dir_Y, Dir_m, Dir_d]]"
    by (simp add: formatos_def)
  show "parsear_fecha (PStr ''03/04/2024'') = Inr (Some (2024, 4, 3))"
    by (simp add: ev_cadenas ev_regex ev_fechas valor_digitos_def)
  show "strptime ''03/04/2024'' (formatos ! 5) = Inr (2024, 3, 4)"
    by (simp add: ev_cadenas ev_regex ev_fechas valor_digitos_def)
  show "parsear_fecha (PStr []) = Inr None"
    by (simp add: parsear_fecha_def)
qed

lemma fecha_2024_12_25:
  "py_strip ''12/25/2024'' = ''12/25/2024''"
  "strptime ''12/25/2024'' (formatos ! 5) = Inr (2024, 12, 25)"
  "\<forall>j<5. \<exists>e. strptime ''12/25/2024'' (formatos ! j) = Inl e"
  by (simp_all add: ev_cadenas ev_regex ev_fechas valor_digitos_def less_Suc_eq
      numeral_eq_Suc)

theorem parsear_fecha_formatos_witness:
  "parsear_fecha (PStr ''12/25/2024'') = Inr (Some (2024, 12, 25))
   \<and> parsear_fecha (PStr ''03/04/2024'') = Inr (Some (2024, 4, 3))"
proof -
  have "\<exists>i<length formatos. strptime ''12/25/2024'' (formatos ! i) = Inr (2024, 12, 25)
      \<and> (\<forall>j<i. \<exists>e. strptime ''12/25/2024'' (formatos ! j) = Inl e)"
    using fecha_2024_12_25(2,3) by (intro exI [of _ 5]) (simp add: formatos_def)
  then show ?thesis
    using parsear_fecha_formatos [of "''12/25/2024''" "(2024, 12, 25)"] fecha_2024_12_25(1)
    by simp
qed

subsection \<open>The classifier\<close>

lemma algun_patron_iff:
  "algun_patron patrones d \<longleftrightarrow> (\<exists>p\<in>set patrones. re_search False p d \<noteq> None)"
  by (induction patrones) auto

lemma categorizar_en_find:
  "categorizar_en cs d =
     (case find (\<lambda>(categoria, patrones). \<exists>p\<in>set patrones. re_search False p d \<noteq> None) cs of
        None \<Rightarrow> ''otros'' | Some (categoria, patrones) \<Rightarrow> categoria)"
  by (induction cs) (auto simp: algun_patron_iff)

text \<open>
  Claim C8. \<open>categorizar_transaccion\<close> returns the first category of \<open>CATEGORIAS\<close>, in
  the order internal transfers, suppliers, payroll, taxes, services, customers,
  financing, that has a pattern with a match in the lower-cased description, and
  \<open>otros\<close> (the \<open>other\<close> of the specification) when no category has one.
  \<open>Pago de nomina a empleado\<close>, written with the accented o, is classified as
  \<open>nominas\<close>.
\<close>

theorem categorizar_primera_categoria:
  "categorizar_transaccion d =
     (case find (\<lambda>(categoria, patrones).
                   \<exists>p\<in>set patrones. re_search False p (py_lower d) \<noteq> None) CATEGORIAS of
        None \<Rightarrow> ''otros'' | Some (categoria, patrones) \<Rightarrow> categoria)
   \<and> map fst CATEGORIAS =
       [''transferencias_internas'', ''proveedores'', ''nominas'', ''impuestos'', ''servicios'',
        ''clientes'', ''financiamiento'']
   \<and> categorizar_transaccion (''Pago de n'' @ [CHR 0xF3] @ ''mina a empleado'') = ''nominas''"
proof (intro conjI)
  show "categorizar_transaccion d =
     (case find (\<lambda>(categoria, patrones).
                   \<exists>p\<in>set patrones. re_search False p (py_lower d) \<noteq> None) CATEGORIAS of
        None \<Rightarrow> ''otros'' | Some (categoria, patrones) \<Rightarrow> categoria)"
    unfolding categorizar_transaccion_def by (rule categorizar_en_find)
  show "map fst CATEGORIAS =
       [''transferencias_internas'', ''proveedores'', ''nominas'', ''impuestos'', ''servicios'',
        ''clientes'', ''financiamiento'']"
    by (simp add: CATEGORIAS_def)
  show "categorizar_transaccion (''Pago de n'' @ [CHR 0xF3] @ ''mina a empleado'') = ''nominas''"
    by (simp add: ev_categorias ev_cadenas ev_regex)
qed

lemma categorizar_sin_patron: "categorizar_transaccion ''Retiro'' = ''otros''"
  by (simp add: ev_categorias ev_cadenas ev_regex)

theorem categorizar_primera_categoria_witness:
  "categorizar_transaccion (''Pago de n'' @ [CHR 0xF3] @ ''mina a empleado'') = ''nominas''
   \<and> categorizar_transaccion ''Retiro'' = ''otros''"
  using categorizar_primera_categoria [of "''Retiro''"] categorizar_sin_patron
  by simp

subsection \<open>The generic parser of the PDF adapter\<close>

lemma lineas_bucle_mem:
  "t \<in> set (lineas_bucle cuerpo lineas) \<Longrightarrow> \<exists>linea\<in>set lineas. cuerpo linea = Inr (Some t)"
  by (induction lineas) (auto split: sum.splits option.splits)

lemma linea_generico_Some:
  assumes "linea_generico linea = Inr (Some t)"
  shows "\<exists>m monto f. re_search False patron_generico linea = Some m
      \<and> decimal_de_grupo m 2 = Inr monto
      \<and> t = transaccion f (take 100 (descripcion_generica linea m)) []
            (if py_in ''cargo'' (py_lower (descripcion_generica linea m)) then monto else Fin 0)
            (if py_in ''abono'' (py_lower (descripcion_generica linea m)) then monto else Fin 0)
            None [] ''otros'' None"
  using assms
  by (auto simp: linea_generico_def ligar_def Let_def split: option.splits sum.splits
      split del: if_split)



lemma generico_factura:
  "parsear_generico ''factura 01/02/2024 100.00 cargo abono'' =
     [transaccion (2024, 2, 1) ''facturacargo abono'' [] (Fin 100) (Fin 100) None []
        ''otros'' None]"
  by (simp add: ev_generico ev_cadenas ev_regex ev_decimal ev_fechas)

lemma categorizar_factura: "categorizar_transaccion ''facturacargo abono'' = ''proveedores''"
  by (simp add: ev_categorias ev_cadenas ev_regex)




text \<open>
  Claim C10. Every transaction of the generic parser has the suggested category
  \<open>otros\<close> (the \<open>other\<close> of the specification), whatever its description: the parser
  does not call the classifier. The description \<open>facturacargo abono\<close> of the example
  would be classified as \<open>proveedores\<close>.
\<close>

theorem generico_categoria_otros:
  "t \<in> set (parsear_generico texto) \<Longrightarrow> categoria_sugerida t = ''otros''"
proof -
  assume "t \<in> set (parsear_generico texto)"
  then obtain linea where "linea_generico linea = Inr (Some t)"
    unfolding parsear_generico_def by (blast dest: lineas_bucle_mem)
  from linea_generico_Some [OF this] show ?thesis
    by (auto simp: transaccion_def)
qed

theorem generico_categoria_otros_witness:
  "hd (parsear_generico ''factura 01/02/2024 100.00 cargo abono'')
     \<in> set (parsear_generico ''factura 01/02/2024 100.00 cargo abono'')
   \<and> categoria_sugerida (hd (parsear_generico ''factura 01/02/2024 100.00 cargo abono''))
       = ''otros''
   \<and> categorizar_transaccion
       (descripcion (hd (parsear_generico ''factura 01/02/2024 100.00 cargo abono'')))
       = ''proveedores''"
proof -
  have m: "hd (parsear_generico ''factura 01/02/2024 100.00 cargo abono'')
     \<in> set (parsear_generico ''factura 01/02/2024 100.00 cargo abono'')"
    by (simp add: generico_factura)
  from generico_categoria_otros [OF m] m categorizar_factura show ?thesis
    by (simp add: generico_factura transaccion_def)
qed

end
